theory Spec2Isabelle
  imports Complex_Main "HOL-Library.Multiset" "HOL-Library.AList" "HOL-Library.Product_Lexorder"
begin

section \<open>JavaScript values as the scoreboard server sees them\<close>

text \<open>
  The server (\<^verbatim>\<open>src/server.js\<close>, two copies, and \<^verbatim>\<open>src/unnamed/part_000\<close>, a third)
  is an Express application in front of a Firebase realtime database. Request bodies
  arrive through \<^verbatim>\<open>express.json()\<close> and stored records come back from
  \<^verbatim>\<open>snap.val()\<close>, so every value the handlers touch is a JSON value.

  Numbers. A finite JavaScript number is represented by the rational it denotes; the two
  zeros are identified (they print alike and are both falsy). The three non-finite
  numbers are separate constructors. Comparison, \<^verbatim>\<open>Math.min\<close> and the sign of a
  difference are exact on doubles, so they agree with the same operations on rationals.

  Strings. A string is a list of code units below 256 (\<^typ>\<open>char\<close>), that is the
  Latin-1 part of Unicode.

  Objects. An object is the list of its properties, names distinct, and \<^verbatim>\<open>o[k] = v\<close>
  on it is \<^const>\<open>AList.update\<close>: the value is replaced where the name is there and
  appended where it is not.
\<close>

datatype jsnum = Fin rat | PInf | NInf | NaN

datatype json =
    JNull
  | JBool bool
  | JNum jsnum
  | JStr string
  | JArr "json list"
  | JObj "(string \<times> json) list"

type_synonym obj = "(string \<times> json) list"

text \<open>Property lookup \<^verbatim>\<open>o[k]\<close> on an object; \<open>None\<close> is \<^verbatim>\<open>undefined\<close>.\<close>

definition get_prop :: "obj \<Rightarrow> string \<Rightarrow> json option" where
  "get_prop ob k = map_of ob k"

text \<open>\<^verbatim>\<open>v != null\<close>: neither \<^verbatim>\<open>undefined\<close> nor \<^verbatim>\<open>null\<close>.\<close>

fun not_nullish :: "json option \<Rightarrow> bool" where
  "not_nullish None = False"
| "not_nullish (Some JNull) = False"
| "not_nullish (Some _) = True"

text \<open>Truthiness (\<^verbatim>\<open>ToBoolean\<close>), as used by \<^verbatim>\<open>!x\<close> and \<^verbatim>\<open>x || y\<close>.\<close>

fun truthy :: "json \<Rightarrow> bool" where
  "truthy JNull = False"
| "truthy (JBool b) = b"
| "truthy (JNum n) = (n \<noteq> Fin 0 \<and> n \<noteq> NaN)"
| "truthy (JStr s) = (s \<noteq> [])"
| "truthy (JArr _) = True"
| "truthy (JObj _) = True"

subsection \<open>String methods\<close>

text \<open>
  White space and line terminators among the code units below 256: TAB, LF, VT, FF, CR,
  SP and NBSP. \<^verbatim>\<open>String.prototype.trim\<close> strips them from both ends.
\<close>

definition is_ws :: "char \<Rightarrow> bool" where
  "is_ws c = (of_char c \<in> {9, 10, 11, 12, 13, 32, 160 :: nat})"

definition trim :: "string \<Rightarrow> string" where
  "trim s = rev (dropWhile is_ws (rev (dropWhile is_ws s)))"

text \<open>
  \<^verbatim>\<open>toLowerCase\<close> on code units below 256: A to Z, and the Latin-1 capitals
  U+00C0 to U+00DE without the multiplication sign U+00D7, move up by 32.
\<close>

definition lower_char :: "char \<Rightarrow> char" where
  "lower_char c =
     (let n = (of_char c :: nat)
      in if (65 \<le> n \<and> n \<le> 90) \<or> (192 \<le> n \<and> n \<le> 222 \<and> n \<noteq> 215)
         then char_of (n + 32) else c)"

definition toLowerCase :: "string \<Rightarrow> string" where
  "toLowerCase s = map lower_char s"

text \<open>The character class \<^verbatim>\<open>[a-z0-9]\<close>.\<close>

definition alnum :: "char \<Rightarrow> bool" where
  "alnum c = (let n = (of_char c :: nat) in (97 \<le> n \<and> n \<le> 122) \<or> (48 \<le> n \<and> n \<le> 57))"

text \<open>
  \<^verbatim>\<open>.replace(/[^a-z0-9]+/g, '-')\<close>: scanning from the left, every maximal run of
  characters outside the class becomes one hyphen.
\<close>

function replace_runs :: "string \<Rightarrow> string" where
  "replace_runs [] = []"
| "replace_runs (c # cs) =
     (if alnum c then c # replace_runs cs
      else CHR ''-'' # replace_runs (dropWhile (\<lambda>d. \<not> alnum d) cs))"
  by pat_completeness auto
termination
  by (relation "measure length") (auto simp: less_Suc_eq_le length_dropWhile_le)

text \<open>
  The key of a submission (all three copies):
  \<^verbatim>\<open>String(name).toLowerCase().trim().replace(/[^a-z0-9]+/g, '-')\<close>,
  here from the string \<^verbatim>\<open>String(name)\<close> on.
\<close>

definition canonical_key :: "string \<Rightarrow> string" where
  "canonical_key s = replace_runs (trim (toLowerCase s))"

subsection \<open>Conversions between strings and numbers\<close>

text \<open>
  \<^verbatim>\<open>Number(s)\<close> on a string follows the grammar of \<^verbatim>\<open>StringNumericLiteral\<close>: white
  space is trimmed, the empty string is 0, then either a binary, octal or hexadecimal
  integer without sign, or an optionally signed decimal literal or \<^verbatim>\<open>Infinity\<close>;
  everything else is \<^verbatim>\<open>NaN\<close>. The literal's mathematical value is then rounded to
  the nearest double, a tie going to the even significand (\<open>to_double\<close> below).
\<close>

definition is_digit :: "char \<Rightarrow> bool" where
  "is_digit c = (let n = (of_char c :: nat) in 48 \<le> n \<and> n \<le> 57)"

definition digit_value :: "char \<Rightarrow> int option" where
  "digit_value c =
     (let n = (of_char c :: int)
      in if 48 \<le> n \<and> n \<le> 57 then Some (n - 48)
         else if 97 \<le> n \<and> n \<le> 102 then Some (n - 87)
         else if 65 \<le> n \<and> n \<le> 70 then Some (n - 55)
         else None)"

fun digits_in :: "int \<Rightarrow> string \<Rightarrow> int \<Rightarrow> int option" where
  "digits_in b [] acc = Some acc"
| "digits_in b (c # cs) acc =
     (case digit_value c of
        None \<Rightarrow> None
      | Some d \<Rightarrow> if d < b then digits_in b cs (acc * b + d) else None)"

definition parse_nat :: "int \<Rightarrow> string \<Rightarrow> int option" where
  "parse_nat b s = (if s = [] then None else digits_in b s 0)"

definition pow10 :: "int \<Rightarrow> rat" where
  "pow10 e = (if 0 \<le> e then 10 ^ nat e else 1 / 10 ^ nat (- e))"

text \<open>
  Rounding a positive rational to a double. \<open>halve\<close> and \<open>double_up\<close> bring it to
  \<open>y * 2^e\<close> with \<open>1 \<le> y < 2\<close>, or with \<open>y < 1\<close> and \<open>e = -1022\<close> for a subnormal;
  the significand \<open>y * 2^52\<close> is rounded to an integer, a tie to the even one; a result
  of \<open>2^1024\<close> or more is an infinity (\<open>None\<close>). The first two tests only shorten the
  way for numbers far outside the range: such numbers round to an infinity and to zero
  by the rule as well.
\<close>

function halve :: "rat \<Rightarrow> int \<Rightarrow> rat \<times> int" where
  "halve x e = (if 2 \<le> x then halve (x / 2) (e + 1) else (x, e))"
  by pat_completeness auto
termination
proof (relation "measure (\<lambda>(x, e). nat \<lfloor>x\<rfloor>)")
  show "wf (measure (\<lambda>(x :: rat, e :: int). nat \<lfloor>x\<rfloor>))" by simp
next
  fix x :: rat and e :: int
  assume x: "2 \<le> x"
  then have "\<lfloor>x / 2\<rfloor> \<le> \<lfloor>x - 1\<rfloor>" by (intro floor_mono) simp
  moreover from x have "1 \<le> \<lfloor>x\<rfloor>" by (simp add: le_floor_iff)
  ultimately show "((x / 2, e + 1), (x, e)) \<in> measure (\<lambda>(x, e). nat \<lfloor>x\<rfloor>)" by simp
qed

function double_up :: "rat \<Rightarrow> int \<Rightarrow> rat \<times> int" where
  "double_up x e = (if x < 1 \<and> - 1022 < e then double_up (x * 2) (e - 1) else (x, e))"
  by pat_completeness auto
termination
  by (relation "measure (\<lambda>(x, e). nat (e + 1022))") auto

definition pow2 :: "int \<Rightarrow> rat" where
  "pow2 e = (if 0 \<le> e then 2 ^ nat e else 1 / 2 ^ nat (- e))"

definition round_half_even :: "rat \<Rightarrow> int" where
  "round_half_even q =
     (let f = \<lfloor>q\<rfloor>; r = q - of_int f
      in if r < 1 / 2 then f else if 1 / 2 < r then f + 1 else if even f then f else f + 1)"

definition positive_to_double :: "rat \<Rightarrow> rat option" where
  "positive_to_double x =
     (if 2 ^ 1024 \<le> x then None
      else if x \<le> 1 / 2 ^ 1075 then Some 0
      else let (y, e) = (case halve x 0 of (h, a) \<Rightarrow> double_up h a);
               m = round_half_even (y * 2 ^ 52)
           in if e = 1023 \<and> m = 2 ^ 53 then None else Some (of_int m * pow2 (e - 52)))"

definition to_double :: "rat \<Rightarrow> jsnum" where
  "to_double x =
     (if x = 0 then Fin 0
      else if 0 < x then (case positive_to_double x of None \<Rightarrow> PInf | Some y \<Rightarrow> Fin y)
      else (case positive_to_double (- x) of None \<Rightarrow> NInf | Some y \<Rightarrow> Fin (- y)))"

definition exponent_part :: "string \<Rightarrow> int option" where
  "exponent_part s =
     (case s of
        [] \<Rightarrow> Some 0
      | c # r \<Rightarrow>
          if c = CHR ''e'' \<or> c = CHR ''E'' then
            (case r of
               [] \<Rightarrow> None
             | d # r' \<Rightarrow>
                 if d = CHR ''+'' then parse_nat 10 r'
                 else if d = CHR ''-'' then map_option uminus (parse_nat 10 r')
                 else parse_nat 10 r)
          else None)"

definition unsigned_decimal :: "string \<Rightarrow> rat option" where
  "unsigned_decimal s =
     (let ip = takeWhile is_digit s;
          r1 = dropWhile is_digit s;
          dot = (r1 \<noteq> [] \<and> hd r1 = CHR ''.'');
          fp = (if dot then takeWhile is_digit (tl r1) else []);
          r2 = (if dot then dropWhile is_digit (tl r1) else r1)
      in if ip = [] \<and> fp = [] then None
         else case (parse_nat 10 (ip @ fp), exponent_part r2) of
                (Some m, Some e) \<Rightarrow> Some (of_int m * pow10 (e - int (length fp)))
              | _ \<Rightarrow> None)"

definition unsigned_literal :: "string \<Rightarrow> jsnum" where
  "unsigned_literal s =
     (if s = ''Infinity'' then PInf
      else case unsigned_decimal s of None \<Rightarrow> NaN | Some x \<Rightarrow> to_double x)"

fun negate :: "jsnum \<Rightarrow> jsnum" where
  "negate (Fin x) = Fin (- x)"
| "negate PInf = NInf"
| "negate NInf = PInf"
| "negate NaN = NaN"

definition radix_literal :: "int \<Rightarrow> string \<Rightarrow> jsnum" where
  "radix_literal b s = (case parse_nat b s of None \<Rightarrow> NaN | Some m \<Rightarrow> to_double (of_int m))"

definition StringToNumber :: "string \<Rightarrow> jsnum" where
  "StringToNumber s =
     (let t = trim s
      in case t of
           [] \<Rightarrow> Fin 0
         | c # r \<Rightarrow>
             if c = CHR ''+'' then unsigned_literal r
             else if c = CHR ''-'' then negate (unsigned_literal r)
             else if c = CHR ''0'' \<and> r \<noteq> [] \<and> hd r \<in> set ''xX'' then radix_literal 16 (tl r)
             else if c = CHR ''0'' \<and> r \<noteq> [] \<and> hd r \<in> set ''oO'' then radix_literal 8 (tl r)
             else if c = CHR ''0'' \<and> r \<noteq> [] \<and> hd r \<in> set ''bB'' then radix_literal 2 (tl r)
             else unsigned_literal t)"

text \<open>
  \<^verbatim>\<open>String(x)\<close> on a number (\<^verbatim>\<open>Number::toString\<close>, radix 10) prints the decimal of
  the fewest digits that converts back to \<open>x\<close>, and of those the one nearest to \<open>x\<close>.
  \<open>decimal_toString\<close> lays a decimal \<open>s * 10^(n-k)\<close>, \<open>s\<close> of \<open>k\<close> digits and not
  divisible by 10, out plainly while \<open>-6 < n \<le> 21\<close> and in exponent form otherwise;
  \<open>shortest_from\<close> finds the decimal, trying 1 to 17 digits.
\<close>

function digits_of :: "int \<Rightarrow> string" where
  "digits_of n = (if n < 10 then [char_of (48 + n)] else digits_of (n div 10) @ [char_of (48 + n mod 10)])"
  by pat_completeness auto
termination
  by (relation "measure nat") auto

function fraction_length :: "int \<Rightarrow> rat \<Rightarrow> int" where
  "fraction_length j x =
     (if of_int \<lfloor>x\<rfloor> = x \<or> 1100 \<le> j then j else fraction_length (j + 1) (x * 10))"
  by pat_completeness auto
termination
  by (relation "measure (\<lambda>(j, x). nat (1100 - j))") auto

function strip_zeros :: "int \<Rightarrow> int \<times> nat" where
  "strip_zeros m =
     (if 0 < m \<and> m mod 10 = 0 then (let (s, z) = strip_zeros (m div 10) in (s, Suc z))
      else (m, 0))"
  by pat_completeness auto
termination
  by (relation "measure nat") auto

definition decimal_toString :: "rat \<Rightarrow> string" where
  "decimal_toString x =
     (let j = fraction_length 0 x;
          (s, z) = strip_zeros \<lfloor>x * 10 ^ nat j\<rfloor>;
          ds = digits_of s;
          k = int (length ds);
          n = k + int z - j
      in if k \<le> n \<and> n \<le> 21 then ds @ replicate (nat (n - k)) CHR ''0''
         else if 0 < n \<and> n \<le> 21 then take (nat n) ds @ ''.'' @ drop (nat n) ds
         else if - 6 < n \<and> n \<le> 0 then ''0.'' @ replicate (nat (- n)) CHR ''0'' @ ds
         else (if k = 1 then ds else take 1 ds @ ''.'' @ drop 1 ds)
              @ ''e'' @ (if 0 < n - 1 then ''+'' else ''-'') @ digits_of \<bar>n - 1\<bar>)"

text \<open>The \<open>n\<close> with \<open>10^(n-1) \<le> x < 10^n\<close>, for a positive \<open>x\<close>.\<close>

function tenth :: "rat \<Rightarrow> int \<Rightarrow> int" where
  "tenth x n = (if 10 \<le> x then tenth (x / 10) (n + 1) else n)"
  by pat_completeness auto
termination
proof (relation "measure (\<lambda>(x, n). nat \<lfloor>x\<rfloor>)")
  show "wf (measure (\<lambda>(x :: rat, n :: int). nat \<lfloor>x\<rfloor>))" by simp
next
  fix x :: rat and n :: int
  assume x: "10 \<le> x"
  then have "\<lfloor>x / 10\<rfloor> \<le> \<lfloor>x - 1\<rfloor>" by (intro floor_mono) simp
  moreover from x have "1 \<le> \<lfloor>x\<rfloor>" by (simp add: le_floor_iff)
  ultimately show "((x / 10, n + 1), (x, n)) \<in> measure (\<lambda>(x, n). nat \<lfloor>x\<rfloor>)" by simp
qed

function tenfold :: "rat \<Rightarrow> int \<Rightarrow> int" where
  "tenfold x n = (if x < 1 \<and> - 400 < n then tenfold (x * 10) (n - 1) else n)"
  by pat_completeness auto
termination
  by (relation "measure (\<lambda>(x, n). nat (n + 400))") auto

definition decimal_exponent :: "rat \<Rightarrow> int" where
  "decimal_exponent x = (if 1 \<le> x then tenth x 1 else tenfold x 1)"

text \<open>
  The two decimals of \<open>k\<close> digits next to \<open>x\<close>, below and above; the one to print is
  one that converts back to \<open>x\<close>, the nearer of the two, the even one on a tie.
\<close>

definition candidate :: "rat \<Rightarrow> int \<Rightarrow> int \<Rightarrow> rat option" where
  "candidate x n k =
     (let scale = pow10 (n - k);
          s = \<lfloor>x / scale\<rfloor>;
          lo = of_int s * scale;
          hi = of_int (s + 1) * scale;
          lo_ok = (to_double lo = Fin x);
          hi_ok = (to_double hi = Fin x)
      in if lo_ok \<and> hi_ok then
           (if x - lo < hi - x then Some lo else if hi - x < x - lo then Some hi
            else if even s then Some lo else Some hi)
         else if lo_ok then Some lo
         else if hi_ok then Some hi
         else None)"

function shortest_from :: "int \<Rightarrow> rat \<Rightarrow> rat" where
  "shortest_from k x =
     (if 17 < k then x
      else case candidate x (decimal_exponent x) k of
             Some v \<Rightarrow> v
           | None \<Rightarrow> shortest_from (k + 1) x)"
  by pat_completeness auto
termination
  by (relation "measure (\<lambda>(k, x). nat (18 - k))") auto

definition positive_toString :: "rat \<Rightarrow> string" where
  "positive_toString x = decimal_toString (shortest_from 1 x)"

fun Number_toString :: "jsnum \<Rightarrow> string" where
  "Number_toString NaN = ''NaN''"
| "Number_toString PInf = ''Infinity''"
| "Number_toString NInf = ''-Infinity''"
| "Number_toString (Fin x) =
     (if x = 0 then ''0''
      else if x < 0 then ''-'' @ positive_toString (- x)
      else positive_toString x)"

text \<open>
  \<^verbatim>\<open>String(v)\<close>: an array joins its elements with commas, \<^verbatim>\<open>null\<close> elements as the
  empty string; a plain object is \<^verbatim>\<open>[object Object]\<close>.
\<close>

fun join :: "string list \<Rightarrow> string" where
  "join [] = []"
| "join [s] = s"
| "join (s # t # ss) = s @ '','' @ join (t # ss)"

fun String_js :: "json \<Rightarrow> string" where
  "String_js JNull = ''null''"
| "String_js (JBool b) = (if b then ''true'' else ''false'')"
| "String_js (JNum n) = Number_toString n"
| "String_js (JStr s) = s"
| "String_js (JArr xs) = join (map (\<lambda>x. if x = JNull then [] else String_js x) xs)"
| "String_js (JObj _) = ''[object Object]''"

text \<open>
  \<^verbatim>\<open>Number(v)\<close>; \<open>None\<close> is \<^verbatim>\<open>undefined\<close>. Arrays and objects go through their
  string form.
\<close>

fun Number_js :: "json option \<Rightarrow> jsnum" where
  "Number_js None = NaN"
| "Number_js (Some JNull) = Fin 0"
| "Number_js (Some (JBool b)) = (if b then Fin 1 else Fin 0)"
| "Number_js (Some (JNum n)) = n"
| "Number_js (Some (JStr s)) = StringToNumber s"
| "Number_js (Some v) = StringToNumber (String_js v)"

fun isFinite :: "jsnum \<Rightarrow> bool" where
  "isFinite (Fin _) = True"
| "isFinite _ = False"

text \<open>
  \<^verbatim>\<open>Math.min\<close> of two numbers and the arithmetic of the sort comparator. The
  difference of two finite numbers is taken exactly: the sort only asks whether the
  comparator's result is greater than zero, and the difference of two doubles has the
  sign of their exact difference.
\<close>

fun Math_min :: "jsnum \<Rightarrow> jsnum \<Rightarrow> jsnum" where
  "Math_min (Fin a) (Fin b) = Fin (min a b)"
| "Math_min NaN _ = NaN"
| "Math_min _ NaN = NaN"
| "Math_min NInf _ = NInf"
| "Math_min _ NInf = NInf"
| "Math_min PInf y = y"
| "Math_min x PInf = x"

fun minus_js :: "jsnum \<Rightarrow> jsnum \<Rightarrow> jsnum" where
  "minus_js (Fin a) (Fin b) = Fin (a - b)"
| "minus_js NaN _ = NaN"
| "minus_js _ NaN = NaN"
| "minus_js PInf PInf = NaN"
| "minus_js NInf NInf = NaN"
| "minus_js PInf _ = PInf"
| "minus_js NInf _ = NInf"
| "minus_js _ PInf = NInf"
| "minus_js _ NInf = PInf"

fun times_js :: "jsnum \<Rightarrow> jsnum \<Rightarrow> jsnum" where
  "times_js (Fin a) (Fin b) = Fin (a * b)"
| "times_js NaN _ = NaN"
| "times_js _ NaN = NaN"
| "times_js (Fin a) PInf = (if a = 0 then NaN else if 0 < a then PInf else NInf)"
| "times_js (Fin a) NInf = (if a = 0 then NaN else if 0 < a then NInf else PInf)"
| "times_js PInf (Fin b) = (if b = 0 then NaN else if 0 < b then PInf else NInf)"
| "times_js NInf (Fin b) = (if b = 0 then NaN else if 0 < b then NInf else PInf)"
| "times_js PInf PInf = PInf"
| "times_js NInf NInf = PInf"
| "times_js PInf NInf = NInf"
| "times_js NInf PInf = NInf"

text \<open>
  \<^verbatim>\<open>Array.prototype.sort(cmp)\<close> is stable and reads a comparator's \<^verbatim>\<open>NaN\<close> as zero.
  The model inserts from the right, an element moving behind another only where the
  comparator's result is greater than zero. Where the comparator, so read, orders the
  elements consistently, this is the order of every stable sort (it is the stable sort
  by a key, \<open>sort_js_sort_key\<close> below). Where it does not, as can happen once a time
  converts to \<^verbatim>\<open>NaN\<close>, the language leaves the order to the engine and the model need
  not agree with it; the only statement made about such a listing is the one on two and
  on three records that refutes C9, and those the engine's sort, which first looks for a
  run that is already in order, leaves in the stored order as the model does.
\<close>

fun positive :: "jsnum \<Rightarrow> bool" where
  "positive (Fin x) = (0 < x)"
| "positive PInf = True"
| "positive _ = False"

fun insert_js :: "('a \<Rightarrow> 'a \<Rightarrow> jsnum) \<Rightarrow> 'a \<Rightarrow> 'a list \<Rightarrow> 'a list" where
  "insert_js cmp x [] = [x]"
| "insert_js cmp x (y # ys) =
     (if positive (cmp x y) then y # insert_js cmp x ys else x # y # ys)"

definition sort_js :: "('a \<Rightarrow> 'a \<Rightarrow> jsnum) \<Rightarrow> 'a list \<Rightarrow> 'a list" where
  "sort_js cmp xs = foldr (insert_js cmp) xs []"

section \<open>The database\<close>

text \<open>
  The realtime database holds one record per key under \<^verbatim>\<open>/scores\<close>. The model keeps
  the children as an association list in the order a snapshot enumerates them, together
  with a log of the calls made so far. A call can be rejected (the promise rejects and
  the handler's \<^verbatim>\<open>catch\<close> answers 500): \<open>failing\<close> lists the positions of the calls
  that will be. A rejected call is logged and changes nothing. The records are objects,
  as the handler below writes them, and the database returns what was written.
\<close>

datatype db_call = Get string | Set string obj

datatype db_error = Rejected

record db =
  scores :: "(string \<times> obj) list"
  calls :: "db_call list"
  failing :: "nat list"

definition rejects :: "db \<Rightarrow> bool" where
  "rejects d = (length (calls d) \<in> set (failing d))"

text \<open>\<^verbatim>\<open>db.ref('/scores').get()\<close>, then \<^verbatim>\<open>snap.exists() ? snap.val() : {}\<close>.\<close>

definition get_scores_node :: "db \<Rightarrow> (db_error + (string \<times> obj) list) \<times> db" where
  "get_scores_node d =
     (let d' = d\<lparr>calls := calls d @ [Get ''/scores'']\<rparr>
      in if rejects d then (Inl Rejected, d') else (Inr (scores d), d'))"

text \<open>\<^verbatim>\<open>db.ref(`/scores/${key}`).get()\<close>; \<open>None\<close> when \<^verbatim>\<open>snap.exists()\<close> is false.\<close>

definition get_record :: "string \<Rightarrow> db \<Rightarrow> (db_error + obj option) \<times> db" where
  "get_record key d =
     (let d' = d\<lparr>calls := calls d @ [Get (''/scores/'' @ key)]\<rparr>
      in if rejects d then (Inl Rejected, d') else (Inr (map_of (scores d) key), d'))"

text \<open>
  \<^verbatim>\<open>ref.set(next)\<close> replaces the whole value at the key. A key that is new is put at
  the end of the list. The program lists the records as \<^verbatim>\<open>Object.values(snap.val())\<close>
  enumerates them, which is by key (keys that are array indices first, in numeric order,
  then the others in the order of the database) and not by age. The statements below
  that depend on the order of the list take the list as it is given, or write under keys
  whose order by key is the order of the writes.
\<close>

definition set_record :: "string \<Rightarrow> obj \<Rightarrow> db \<Rightarrow> (db_error + unit) \<times> db" where
  "set_record key v d =
     (let d' = d\<lparr>calls := calls d @ [Set (''/scores/'' @ key) v]\<rparr>
      in if rejects d then (Inl Rejected, d')
         else (Inr (), d'\<lparr>scores := AList.update key v (scores d)\<rparr>))"

section \<open>The handlers\<close>

record response =
  status :: nat
  payload :: json

definition error_response :: "nat \<Rightarrow> string \<Rightarrow> response" where
  "error_response code msg = \<lparr>status = code, payload = JObj [(''error'', JStr msg)]\<rparr>"

subsection \<open>\<^verbatim>\<open>requireApiKey\<close>\<close>

text \<open>
  \<^verbatim>\<open>API_KEY\<close> is \<^verbatim>\<open>process.env.SCOREBOARD_API_KEY || ''\<close>; the header is
  \<^verbatim>\<open>req.get('x-api-key')\<close>, \<open>None\<close> when the request has none. The middleware either
  answers itself or calls \<^verbatim>\<open>next()\<close>, which is the result \<open>None\<close>.
\<close>

definition requireApiKey :: "string \<Rightarrow> string option \<Rightarrow> response option" where
  "requireApiKey API_KEY header =
     (if API_KEY = [] then Some (error_response 500 ''Server not configured'')
      else let got = (case header of None \<Rightarrow> [] | Some h \<Rightarrow> if h = [] then [] else h)
           in if got \<noteq> API_KEY then Some (error_response 401 ''Unauthorized'') else None)"

subsection \<open>\<^verbatim>\<open>GET /scores\<close>\<close>

text \<open>
  The query parameters \<^verbatim>\<open>req.query.course\<close> and \<^verbatim>\<open>req.query.dir\<close>, each a string
  when it is given once and \<open>None\<close> when it is not given.
\<close>

record get_request =
  course :: "string option"
  dir :: "string option"

text \<open>\<^verbatim>\<open>a[course] || Infinity\<close>.\<close>

definition time_or_Infinity :: "string \<Rightarrow> obj \<Rightarrow> json" where
  "time_or_Infinity c a =
     (case get_prop a c of
        None \<Rightarrow> JNum PInf
      | Some v \<Rightarrow> if truthy v then v else JNum PInf)"

text \<open>The comparator \<^verbatim>\<open>(a, b) => sortDir * (aTime - bTime)\<close>.\<close>

definition comparator :: "string \<Rightarrow> jsnum \<Rightarrow> obj \<Rightarrow> obj \<Rightarrow> jsnum" where
  "comparator c sortDir a b =
     (let aTime = time_or_Infinity c a;
          bTime = time_or_Infinity c b
      in times_js sortDir (minus_js (Number_js (Some aTime)) (Number_js (Some bTime))))"

text \<open>
  The first copy in \<^verbatim>\<open>src/server.js\<close> (lines 71 to 92). \<open>sorted_scores\<close> is the part
  between the read and the answer: \<^verbatim>\<open>Object.values(data)\<close>, the two query parameters
  with their defaults (\<open>requested_course\<close> is \<^verbatim>\<open>req.query.course || 'c1'\<close>), and the sort.
\<close>

definition requested_course :: "get_request \<Rightarrow> string" where
  "requested_course req = (case course req of None \<Rightarrow> ''c1'' | Some c \<Rightarrow> if c = [] then ''c1'' else c)"

definition sorted_scores :: "get_request \<Rightarrow> (string \<times> obj) list \<Rightarrow> obj list" where
  "sorted_scores req data =
     (let scores = map snd data;
          course = requested_course req;
          sortDir = (if dir req = Some ''desc'' then Fin (- 1) else Fin 1)
      in sort_js (comparator course sortDir) scores)"

definition get_scores :: "get_request \<Rightarrow> db \<Rightarrow> response \<times> db" where
  "get_scores req d =
     (case get_scores_node d of
        (Inl _, d') \<Rightarrow> (error_response 500 ''Failed to load scores'', d')
      | (Inr data, d') \<Rightarrow>
          (\<lparr>status = 200, payload = JObj [(''scores'', JArr (map JObj (sorted_scores req data)))]\<rparr>, d'))"

text \<open>The second copy in \<^verbatim>\<open>src/server.js\<close> (lines 189 to 195).\<close>

definition get_scores_copy2 :: "get_request \<Rightarrow> db \<Rightarrow> response \<times> db" where
  "get_scores_copy2 req d =
     (case get_scores_node d of
        (Inl _, d') \<Rightarrow> (error_response 500 ''Failed to load scores'', d')
      | (Inr data, d') \<Rightarrow>
          (\<lparr>status = 200, payload = JObj [(''scores'', JArr (map JObj (map snd data)))]\<rparr>, d'))"

text \<open>The copy in \<^verbatim>\<open>src/unnamed/part_000\<close> (lines 55 to 64).\<close>

definition get_scores_part_000 :: "get_request \<Rightarrow> db \<Rightarrow> response \<times> db" where
  "get_scores_part_000 req d =
     (case get_scores_node d of
        (Inl _, d') \<Rightarrow> (error_response 500 ''Failed to load scores'', d')
      | (Inr data, d') \<Rightarrow>
          (\<lparr>status = 200, payload = JObj [(''scores'', JArr (map JObj (map snd data)))]\<rparr>, d'))"

subsection \<open>\<^verbatim>\<open>POST /scores/submit\<close>\<close>

text \<open>
  The handler is the same text in all three copies up to layout, one comment and the
  message written to the console. One turn of its loop over the five courses:
\<close>

definition merge_course :: "obj \<Rightarrow> obj \<Rightarrow> obj \<Rightarrow> string \<Rightarrow> obj" where
  "merge_course body existing next c =
     (if not_nullish (get_prop body c) then
        (let nv = Number_js (get_prop body c)
         in if isFinite nv then
              (let ov = Number_js (get_prop existing c)
               in AList.update c (JNum (if isFinite ov then Math_min ov nv else nv)) next)
            else next)
      else case get_prop existing c of
             None \<Rightarrow> next
           | Some v \<Rightarrow> if v = JNull then next else AList.update c v next)"

definition courses :: "string list" where
  "courses = [''c1'', ''c2'', ''c3'', ''c4'', ''c5'']"

text \<open>
  The record \<^verbatim>\<open>next\<close> as it stands after the loop; \<open>now\<close> is what \<^verbatim>\<open>Date.now()\<close>
  returns and \<open>nm\<close> is the name of the request, known to be there.
\<close>

definition next_record :: "int \<Rightarrow> obj \<Rightarrow> json \<Rightarrow> obj \<Rightarrow> obj" where
  "next_record now body nm existing =
     (let device = get_prop body ''device'';
          next = [(''name'', JStr (take 40 (trim (String_js nm)))),
                  (''device'', JStr (if device = Some (JStr ''mobile'') then ''mobile'' else ''desktop'')),
                  (''updatedAt'', JNum (Fin (of_int now)))]
      in foldl (merge_course body existing) next courses)"

text \<open>
  The handler; \<open>req_body\<close> is \<^verbatim>\<open>req.body\<close>, \<open>None\<close> when the request carried no
  JSON object.
\<close>

definition submit :: "int \<Rightarrow> obj option \<Rightarrow> db \<Rightarrow> response \<times> db" where
  "submit now req_body d =
     (let body = (case req_body of None \<Rightarrow> [] | Some b \<Rightarrow> b);
          name = get_prop body ''name''
      in case name of
           None \<Rightarrow> (error_response 400 ''Missing name'', d)
         | Some nm \<Rightarrow>
             if \<not> truthy nm \<or> trim (String_js nm) = [] then (error_response 400 ''Missing name'', d)
             else
               (let key = canonical_key (String_js nm)
                in case get_record key d of
                     (Inl _, d1) \<Rightarrow> (error_response 500 ''Failed to submit'', d1)
                   | (Inr snap, d1) \<Rightarrow>
                       (let existing = (case snap of None \<Rightarrow> [] | Some r \<Rightarrow> r);
                            next = next_record now body nm existing
                        in case set_record key next d1 of
                             (Inl _, d2) \<Rightarrow> (error_response 500 ''Failed to submit'', d2)
                           | (Inr _, d2) \<Rightarrow>
                               (\<lparr>status = 200, payload = JObj [(''ok'', JBool True), (''saved'', JObj next)]\<rparr>, d2))))"

record post_request =
  x_api_key :: "string option"
  body :: "obj option"

text \<open>
  The route as it is mounted:
  \<^verbatim>\<open>app.post('/scores/submit', requireApiKey, async (req, res) => ...)\<close>, the middleware
  \<^verbatim>\<open>requireApiKey\<close> and then the handler. \<open>body\<close> is \<^verbatim>\<open>req.body\<close> as the route finds
  it. A request reaches the route only through the functions that \<^verbatim>\<open>app.use\<close> has
  put in front of it; they are the subject of the next subsection.
\<close>

definition post_scores_submit :: "string \<Rightarrow> int \<Rightarrow> post_request \<Rightarrow> db \<Rightarrow> response \<times> db" where
  "post_scores_submit API_KEY now req d =
     (case requireApiKey API_KEY (x_api_key req) of
        Some r \<Rightarrow> (r, d)
      | None \<Rightarrow> submit now (body req) d)"

subsection \<open>The application in front of the route\<close>

text \<open>
  Before any route, every request passes \<^verbatim>\<open>app.use(cors(...))\<close> and then
  \<^verbatim>\<open>app.use(express.json())\<close> (\<^verbatim>\<open>src/server.js\<close> lines 46 to 57 and 175 to 176,
  \<^verbatim>\<open>src/unnamed/part_000\<close> lines 40 to 41). Either can end the request by handing an
  error on; the server installs no error handler of its own, so Express answers with the
  status of the error, 500 when it has none, and a page of its own. Nothing of the route
  runs then.

  \<^verbatim>\<open>express.json()\<close> is a library function, not code of this repository. What it does
  with a request is part of the request here: it either refuses it with a status (400 for
  a body sent as JSON that is not the text of an object or an array, 413 for a body over
  the size limit, 415 for a charset or an encoding it does not know), or it hands the
  request on with \<^verbatim>\<open>req.body\<close> set.
\<close>

datatype parsed_body = Refused nat | Handed_on "obj option"

text \<open>
  A \<^verbatim>\<open>POST /scores/submit\<close> request as it arrives: the \<^verbatim>\<open>Origin\<close> header and the
  \<^verbatim>\<open>x-api-key\<close> header, each \<open>None\<close> when the request has none, and what
  \<^verbatim>\<open>express.json()\<close> makes of the body.
\<close>

record http_post =
  origin_header :: "string option"
  key_header :: "string option"
  json_outcome :: parsed_body

text \<open>The answer: the page of Express for an error, or what the route sent.\<close>

datatype answer = Error_page nat | Json response

fun answer_status :: "answer \<Rightarrow> nat" where
  "answer_status (Error_page st) = st"
| "answer_status (Json r) = status r"

text \<open>
  \<^verbatim>\<open>CORS_ORIGINS.split(',').map(s => s.trim()).filter(Boolean)\<close>, where \<^verbatim>\<open>CORS_ORIGINS\<close> is
  \<^verbatim>\<open>process.env.CORS_ORIGINS || ''\<close>.
\<close>

fun split_commas :: "string \<Rightarrow> string list" where
  "split_commas [] = [[]]"
| "split_commas (c # cs) =
     (if c = CHR '','' then [] # split_commas cs
      else case split_commas cs of
             [] \<Rightarrow> [[c]]
           | p # ps \<Rightarrow> (c # p) # ps)"

definition allowedOrigins :: "string \<Rightarrow> string list" where
  "allowedOrigins CORS_ORIGINS = filter (\<lambda>s. s \<noteq> []) (map trim (split_commas CORS_ORIGINS))"

text \<open>
  The test of the first copy's \<^verbatim>\<open>origin\<close> function,
  \<^verbatim>\<open>!origin || allowedOrigins.includes(origin)\<close>. Where it fails the function calls
  back with \<^verbatim>\<open>new Error('Not allowed by CORS')\<close>, an error without a status.
\<close>

definition cors_allows :: "string list \<Rightarrow> string option \<Rightarrow> bool" where
  "cors_allows allowed origin =
     (case origin of
        None \<Rightarrow> True
      | Some og \<Rightarrow> og = [] \<or> og \<in> set allowed)"

text \<open>\<^verbatim>\<open>POST /scores/submit\<close> as the first copy in \<^verbatim>\<open>src/server.js\<close> answers it.\<close>

definition app_post_scores_submit :: "string \<Rightarrow> string \<Rightarrow> int \<Rightarrow> http_post \<Rightarrow> db \<Rightarrow> answer \<times> db" where
  "app_post_scores_submit CORS_ORIGINS API_KEY now req d =
     (if \<not> cors_allows (allowedOrigins CORS_ORIGINS) (origin_header req) then (Error_page 500, d)
      else case json_outcome req of
             Refused st \<Rightarrow> (Error_page st, d)
           | Handed_on b \<Rightarrow>
               (case post_scores_submit API_KEY now \<lparr>x_api_key = key_header req, body = b\<rparr> d of
                  (r, d') \<Rightarrow> (Json r, d')))"

text \<open>
  The same for the second copy in \<^verbatim>\<open>src/server.js\<close> and the copy in
  \<^verbatim>\<open>src/unnamed/part_000\<close>: \<^verbatim>\<open>cors()\<close> without options lets every origin pass.
\<close>

definition app_post_scores_submit_copy2 :: "string \<Rightarrow> int \<Rightarrow> http_post \<Rightarrow> db \<Rightarrow> answer \<times> db" where
  "app_post_scores_submit_copy2 API_KEY now req d =
     (case json_outcome req of
        Refused st \<Rightarrow> (Error_page st, d)
      | Handed_on b \<Rightarrow>
          (case post_scores_submit API_KEY now \<lparr>x_api_key = key_header req, body = b\<rparr> d of
             (r, d') \<Rightarrow> (Json r, d')))"

section \<open>Notions used in the statements\<close>

text \<open>
  A string is in key form when it consists of characters of \<^verbatim>\<open>[a-z0-9]\<close> and single
  hyphens, no two hyphens in a row.
\<close>

fun key_form :: "string \<Rightarrow> bool" where
  "key_form [] = True"
| "key_form [c] = (alnum c \<or> c = CHR ''-'')"
| "key_form (c # d # cs) = ((alnum c \<or> c = CHR ''-'' \<and> alnum d) \<and> key_form (d # cs))"

text \<open>The record stored under a key, as the handler reads it: \<^verbatim>\<open>{}\<close> when there is none.\<close>

definition existing_of :: "string \<Rightarrow> db \<Rightarrow> obj" where
  "existing_of key d = (case map_of (scores d) key of None \<Rightarrow> [] | Some r \<Rightarrow> r)"

text \<open>Submissions handled one after the other, each with its own clock reading.\<close>

fun submissions :: "string \<Rightarrow> (int \<times> post_request) list \<Rightarrow> db \<Rightarrow> db" where
  "submissions API_KEY [] d = d"
| "submissions API_KEY ((now, req) # rest) d =
     submissions API_KEY rest (snd (post_scores_submit API_KEY now req d))"

text \<open>
  The value a request submits for a course is absent, \<^verbatim>\<open>null\<close>, or converts to a
  finite number.
\<close>

definition convertible :: "string \<Rightarrow> post_request \<Rightarrow> bool" where
  "convertible c req =
     (case body req of
        None \<Rightarrow> True
      | Some b \<Rightarrow> if not_nullish (get_prop b c) then isFinite (Number_js (get_prop b c)) else True)"

text \<open>
  The finite numbers submitted for a course under a key, in the order of the requests:
  a request counts when it is answered 200, its name has that key and its value for the
  course is present.
\<close>

definition contributed :: "string \<Rightarrow> int \<Rightarrow> post_request \<Rightarrow> db \<Rightarrow> string \<Rightarrow> string \<Rightarrow> rat list" where
  "contributed API_KEY now req d k c =
     (case body req of
        None \<Rightarrow> []
      | Some b \<Rightarrow>
          (case get_prop b ''name'' of
             None \<Rightarrow> []
           | Some nm \<Rightarrow>
               if status (fst (post_scores_submit API_KEY now req d)) = 200 \<and>
                  canonical_key (String_js nm) = k \<and> not_nullish (get_prop b c)
               then (case Number_js (get_prop b c) of Fin x \<Rightarrow> [x] | _ \<Rightarrow> [])
               else []))"

fun submitted_times :: "string \<Rightarrow> string \<Rightarrow> string \<Rightarrow> (int \<times> post_request) list \<Rightarrow> db \<Rightarrow> rat list" where
  "submitted_times API_KEY k c [] d = []"
| "submitted_times API_KEY k c ((now, req) # rest) d =
     contributed API_KEY now req d k c @
     submitted_times API_KEY k c rest (snd (post_scores_submit API_KEY now req d))"

text \<open>The best time so far, \<open>None\<close> while there is none, after one more time.\<close>

fun best :: "rat option \<Rightarrow> rat \<Rightarrow> rat option" where
  "best None x = Some x"
| "best (Some y) x = Some (min y x)"

text \<open>
  The number the comparator works with for a record: its time or the sentinel, through
  the conversion that the subtraction applies.
\<close>

definition sort_time :: "string \<Rightarrow> obj \<Rightarrow> jsnum" where
  "sort_time c a = Number_js (Some (time_or_Infinity c a))"

text \<open>Every record's value for each of the five courses is a finite number or absent.\<close>

fun finite_time :: "json option \<Rightarrow> bool" where
  "finite_time None = True"
| "finite_time (Some (JNum (Fin t))) = True"
| "finite_time (Some _) = False"

definition finite_times :: "(string \<times> obj) list \<Rightarrow> bool" where
  "finite_times data = list_all (\<lambda>(k, r). list_all (\<lambda>c. finite_time (get_prop r c)) courses) data"

text \<open>The order of the numbers, \<open>-Infinity\<close> first and \<open>Infinity\<close> last, as a linear order.\<close>

fun time_rank :: "jsnum \<Rightarrow> nat \<times> rat" where
  "time_rank NInf = (0, 0)"
| "time_rank (Fin x) = (1, x)"
| "time_rank PInf = (2, 0)"
| "time_rank NaN = (3, 0)"

text \<open>The records in the answer \<^verbatim>\<open>{ scores: [...] }\<close>.\<close>

fun listed :: "json \<Rightarrow> json list" where
  "listed (JObj [(k, JArr rs)]) = rs"
| "listed _ = []"

section \<open>The canonical key\<close>

lemma hyphen_not_alnum: "\<not> alnum CHR ''-''"
  by (simp add: alnum_def)

lemma replace_runs_head_alnum:
  "ds = [] \<or> alnum (hd ds) \<Longrightarrow> replace_runs ds = [] \<or> alnum (hd (replace_runs ds))"
  by (cases ds) auto

lemma replace_runs_head:
  "replace_runs (dropWhile (\<lambda>d. \<not> alnum d) cs) = [] \<or>
   alnum (hd (replace_runs (dropWhile (\<lambda>d. \<not> alnum d) cs)))"
proof (rule replace_runs_head_alnum)
  show "dropWhile (\<lambda>d. \<not> alnum d) cs = [] \<or> alnum (hd (dropWhile (\<lambda>d. \<not> alnum d) cs))"
    using hd_dropWhile [of "\<lambda>d. \<not> alnum d" cs] by blast
qed

lemma key_form_Cons_alnum: "alnum c \<Longrightarrow> key_form cs \<Longrightarrow> key_form (c # cs)"
  by (cases cs) auto

lemma key_form_Cons_hyphen: "cs = [] \<or> alnum (hd cs) \<Longrightarrow> key_form cs \<Longrightarrow> key_form (CHR ''-'' # cs)"
  by (cases cs) auto

lemma key_form_replace_runs: "key_form (replace_runs s)"
proof (induction s rule: replace_runs.induct)
  case 1
  show ?case by simp
next
  case (2 c cs)
  show ?case
  proof (cases "alnum c")
    case True
    with 2 show ?thesis by (simp add: key_form_Cons_alnum)
  next
    case False
    with 2 replace_runs_head [of cs] show ?thesis
      by (simp add: key_form_Cons_hyphen)
  qed
qed

lemma key_form_chars: "key_form s \<Longrightarrow> c \<in> set s \<Longrightarrow> alnum c \<or> c = CHR ''-''"
  by (induction s rule: key_form.induct) auto

lemma replace_runs_key_form: "key_form s \<Longrightarrow> replace_runs s = s"
proof (induction s rule: key_form.induct)
  case 1
  show ?case by simp
next
  case (2 c)
  then show ?case by auto
next
  case (3 c d cs)
  then show ?case by (auto simp: hyphen_not_alnum)
qed

lemma lower_char_key: "alnum c \<or> c = CHR ''-'' \<Longrightarrow> lower_char c = c"
  by (auto simp: alnum_def lower_char_def Let_def)

lemma not_ws_key: "alnum c \<or> c = CHR ''-'' \<Longrightarrow> \<not> is_ws c"
  by (auto simp: alnum_def is_ws_def Let_def)

lemma toLowerCase_key_form: "key_form s \<Longrightarrow> toLowerCase s = s"
  unfolding toLowerCase_def
  by (rule map_idI) (auto dest: key_form_chars simp: lower_char_key)

lemma dropWhile_none: "\<forall>c \<in> set s. \<not> P c \<Longrightarrow> dropWhile P s = s"
  by (cases s) auto

lemma trim_key_form: "key_form s \<Longrightarrow> trim s = s"
proof -
  assume k: "key_form s"
  then have n: "\<forall>c \<in> set s. \<not> is_ws c"
    using key_form_chars not_ws_key by blast
  then have "dropWhile is_ws s = s" by (rule dropWhile_none)
  moreover from n have "dropWhile is_ws (rev s) = rev s" by (intro dropWhile_none) simp
  ultimately show ?thesis by (simp add: trim_def)
qed

lemma canonical_key_fixed: "key_form s \<Longrightarrow> canonical_key s = s"
  by (simp add: canonical_key_def toLowerCase_key_form trim_key_form replace_runs_key_form)

lemma key_form_canonical_key: "key_form (canonical_key s)"
  by (simp add: canonical_key_def key_form_replace_runs)

text \<open>
  C3, as the code has it. Deriving the key is idempotent, and \<^verbatim>\<open>"bob   smith"\<close> has the
  key \<^verbatim>\<open>"bob-smith"\<close>; but \<^verbatim>\<open>"Bob Smith!!"\<close> has the key \<^verbatim>\<open>"bob-smith-"\<close>, because
  the run \<^verbatim>\<open>!!\<close> at its end becomes a hyphen like any other run. The two names are
  stored under different keys.
\<close>

theorem canonical_key_idempotent:
  "canonical_key (canonical_key s) = canonical_key s \<and>
   canonical_key ''bob   smith'' = ''bob-smith'' \<and>
   canonical_key ''Bob Smith!!'' = ''bob-smith-''"
proof -
  have "canonical_key (canonical_key s) = canonical_key s"
    by (rule canonical_key_fixed) (rule key_form_canonical_key)
  moreover have "canonical_key ''bob   smith'' = ''bob-smith''" by code_simp
  moreover have "canonical_key ''Bob Smith!!'' = ''bob-smith-''" by code_simp
  ultimately show ?thesis by simp
qed

text \<open>
  C3 as the specification words it fails: \<^verbatim>\<open>"Bob Smith!!"\<close> does not have the key
  \<^verbatim>\<open>"bob-smith"\<close>, and not the key of \<^verbatim>\<open>"bob   smith"\<close> either.
\<close>

theorem bob_smith_keys_differ:
  "canonical_key ''Bob Smith!!'' \<noteq> ''bob-smith'' \<and>
   canonical_key ''Bob Smith!!'' \<noteq> canonical_key ''bob   smith''"
  by code_simp

section \<open>The API key\<close>

lemma requireApiKey_cases:
  "requireApiKey API_KEY h =
     (if API_KEY = [] then Some (error_response 500 ''Server not configured'')
      else if h = Some API_KEY then None
      else Some (error_response 401 ''Unauthorized''))"
  by (cases h) (auto simp: requireApiKey_def)

lemma route_requires_key:
  assumes "API_KEY \<noteq> []"
  shows "(h \<noteq> Some API_KEY \<longrightarrow>
            post_scores_submit API_KEY now \<lparr>x_api_key = h, body = b\<rparr> d =
              (error_response 401 ''Unauthorized'', d)) \<and>
         (h = Some API_KEY \<longrightarrow>
            post_scores_submit API_KEY now \<lparr>x_api_key = h, body = b\<rparr> d = submit now b d)"
  using assms by (simp add: post_scores_submit_def requireApiKey_cases)

text \<open>
  C6, as the code has it. Let a secret be configured (\<^verbatim>\<open>API_KEY\<close> not empty). A request
  stopped in front of the route is answered by Express: with 500 when the first copy's
  CORS test fails, with the status of the refusal when \<^verbatim>\<open>express.json()\<close> refuses the
  body. Of the requests that reach the route, one whose \<^verbatim>\<open>x-api-key\<close> header is absent
  or differs from the secret is answered 401, whatever \<^verbatim>\<open>req.body\<close> is, and one whose
  header equals the secret passes the check and is answered by the handler. A request
  whose header is absent or differs leaves the database as it was, its log of calls
  included, wherever it is stopped.
\<close>

theorem wrong_api_key_unauthorized:
  assumes "API_KEY \<noteq> []"
  shows "(\<not> cors_allows (allowedOrigins CORS_ORIGINS) (origin_header req) \<longrightarrow>
            app_post_scores_submit CORS_ORIGINS API_KEY now req d = (Error_page 500, d)) \<and>
         (json_outcome req = Refused st \<longrightarrow>
            app_post_scores_submit_copy2 API_KEY now req d = (Error_page st, d) \<and>
            (cors_allows (allowedOrigins CORS_ORIGINS) (origin_header req) \<longrightarrow>
               app_post_scores_submit CORS_ORIGINS API_KEY now req d = (Error_page st, d))) \<and>
         (json_outcome req = Handed_on b \<and> key_header req \<noteq> Some API_KEY \<longrightarrow>
            app_post_scores_submit_copy2 API_KEY now req d =
              (Json (error_response 401 ''Unauthorized''), d) \<and>
            (cors_allows (allowedOrigins CORS_ORIGINS) (origin_header req) \<longrightarrow>
               app_post_scores_submit CORS_ORIGINS API_KEY now req d =
                 (Json (error_response 401 ''Unauthorized''), d))) \<and>
         (json_outcome req = Handed_on b \<and> key_header req = Some API_KEY \<longrightarrow>
            requireApiKey API_KEY (key_header req) = None \<and>
            app_post_scores_submit_copy2 API_KEY now req d =
              (Json (fst (submit now b d)), snd (submit now b d)) \<and>
            (cors_allows (allowedOrigins CORS_ORIGINS) (origin_header req) \<longrightarrow>
               app_post_scores_submit CORS_ORIGINS API_KEY now req d =
                 (Json (fst (submit now b d)), snd (submit now b d)))) \<and>
         (key_header req \<noteq> Some API_KEY \<longrightarrow>
            snd (app_post_scores_submit CORS_ORIGINS API_KEY now req d) = d \<and>
            snd (app_post_scores_submit_copy2 API_KEY now req d) = d)"
proof -
  note route = route_requires_key [OF assms, of "key_header req" now _ d]
  have pass: "key_header req = Some API_KEY \<Longrightarrow> requireApiKey API_KEY (key_header req) = None"
    using assms by (simp add: requireApiKey_cases)
  show ?thesis
    using route pass
    by (cases "json_outcome req")
       (simp_all add: app_post_scores_submit_def app_post_scores_submit_copy2_def split_beta)
qed

theorem wrong_api_key_unauthorized_witness:
  "app_post_scores_submit ''https://game.example, https://play.example'' ''s3cret'' 1000
     \<lparr>origin_header = Some ''https://play.example'', key_header = Some ''guess'',
      json_outcome = Handed_on (Some [(''name'', JStr ''Alice''), (''c1'', JNum (Fin 55))])\<rparr>
     \<lparr>scores = [], calls = [], failing = []\<rparr>
   = (Json (error_response 401 ''Unauthorized''), \<lparr>scores = [], calls = [], failing = []\<rparr>) \<and>
   app_post_scores_submit_copy2 ''s3cret'' 1000
     \<lparr>origin_header = Some ''https://play.example'', key_header = Some ''guess'',
      json_outcome = Handed_on (Some [(''name'', JStr ''Alice''), (''c1'', JNum (Fin 55))])\<rparr>
     \<lparr>scores = [], calls = [], failing = []\<rparr>
   = (Json (error_response 401 ''Unauthorized''), \<lparr>scores = [], calls = [], failing = []\<rparr>) \<and>
   app_post_scores_submit [] ''s3cret'' 1000
     \<lparr>origin_header = None, key_header = None, json_outcome = Handed_on None\<rparr>
     \<lparr>scores = [], calls = [], failing = []\<rparr>
   = (Json (error_response 401 ''Unauthorized''), \<lparr>scores = [], calls = [], failing = []\<rparr>) \<and>
   app_post_scores_submit ''https://game.example, https://play.example'' ''s3cret'' 1000
     \<lparr>origin_header = Some ''https://else.example'', key_header = Some ''s3cret'',
      json_outcome = Handed_on None\<rparr>
     \<lparr>scores = [], calls = [], failing = []\<rparr>
   = (Error_page 500, \<lparr>scores = [], calls = [], failing = []\<rparr>) \<and>
   app_post_scores_submit [] ''s3cret'' 1000
     \<lparr>origin_header = None, key_header = None, json_outcome = Refused 413\<rparr>
     \<lparr>scores = [], calls = [], failing = []\<rparr>
   = (Error_page 413, \<lparr>scores = [], calls = [], failing = []\<rparr>) \<and>
   requireApiKey ''s3cret'' (Some ''s3cret'') = None \<and>
   app_post_scores_submit [] ''s3cret'' 1000
     \<lparr>origin_header = None, key_header = Some ''s3cret'', json_outcome = Handed_on None\<rparr>
     \<lparr>scores = [], calls = [], failing = []\<rparr>
   = (Json (error_response 400 ''Missing name''), \<lparr>scores = [], calls = [], failing = []\<rparr>)"
proof -
  let ?list = "''https://game.example, https://play.example''"
  let ?d = "\<lparr>scores = [], calls = [], failing = []\<rparr>"
  let ?guess = "\<lparr>origin_header = Some ''https://play.example'', key_header = Some ''guess'',
      json_outcome = Handed_on (Some [(''name'', JStr ''Alice''), (''c1'', JNum (Fin 55))])\<rparr>"
  let ?bare = "\<lparr>origin_header = None, key_header = None, json_outcome = Handed_on None\<rparr>"
  let ?else = "\<lparr>origin_header = Some ''https://else.example'', key_header = Some ''s3cret'',
      json_outcome = Handed_on None\<rparr>"
  let ?big = "\<lparr>origin_header = None, key_header = None, json_outcome = Refused 413\<rparr>"
  let ?good = "\<lparr>origin_header = None, key_header = Some ''s3cret'', json_outcome = Handed_on None\<rparr>"
  have play: "cors_allows (allowedOrigins ?list) (Some ''https://play.example'')"
    by code_simp
  have other: "\<not> cors_allows (allowedOrigins ?list) (Some ''https://else.example'')"
    by code_simp
  have none: "cors_allows (allowedOrigins []) None"
    by (simp add: cors_allows_def)
  have secret: "''s3cret'' \<noteq> []" by simp
  have sub: "submit 1000 None ?d = (error_response 400 ''Missing name'', ?d)"
    by (simp add: submit_def get_prop_def)
  from wrong_api_key_unauthorized [OF secret, where req = ?guess and CORS_ORIGINS = ?list
      and b = "Some [(''name'', JStr ''Alice''), (''c1'', JNum (Fin 55))]" and now = 1000 and d = ?d]
    wrong_api_key_unauthorized [OF secret, where req = ?bare and CORS_ORIGINS = "[]"
      and b = None and now = 1000 and d = ?d]
    wrong_api_key_unauthorized [OF secret, where req = ?else and CORS_ORIGINS = ?list
      and now = 1000 and d = ?d]
    wrong_api_key_unauthorized [OF secret, where req = ?big and CORS_ORIGINS = "[]"
      and st = 413 and now = 1000 and d = ?d]
    wrong_api_key_unauthorized [OF secret, where req = ?good and CORS_ORIGINS = "[]"
      and b = None and now = 1000 and d = ?d]
    play other none sub
  show ?thesis by simp
qed

text \<open>
  C6 as the specification words it fails in three ways. With a secret configured, a
  request without the header whose body \<^verbatim>\<open>express.json()\<close> refuses is answered 400, in
  every copy, and one with a wrong header from an origin that is not allowed is answered
  500 by the first copy; neither reaches \<^verbatim>\<open>requireApiKey\<close>. And where no secret is
  configured, the request without a header is answered 500 by \<^verbatim>\<open>requireApiKey\<close>.
\<close>

theorem missing_key_not_always_401:
  "answer_status (fst (app_post_scores_submit [] ''s3cret'' 1000
      \<lparr>origin_header = None, key_header = None, json_outcome = Refused 400\<rparr>
      \<lparr>scores = [], calls = [], failing = []\<rparr>)) = 400 \<and>
   answer_status (fst (app_post_scores_submit_copy2 ''s3cret'' 1000
      \<lparr>origin_header = None, key_header = None, json_outcome = Refused 400\<rparr>
      \<lparr>scores = [], calls = [], failing = []\<rparr>)) = 400 \<and>
   answer_status (fst (app_post_scores_submit ''https://game.example'' ''s3cret'' 1000
      \<lparr>origin_header = Some ''https://else.example'', key_header = Some ''guess'',
       json_outcome = Handed_on (Some [(''name'', JStr ''Alice'')])\<rparr>
      \<lparr>scores = [], calls = [], failing = []\<rparr>)) = 500 \<and>
   answer_status (fst (app_post_scores_submit [] [] 1000
      \<lparr>origin_header = None, key_header = None, json_outcome = Handed_on None\<rparr>
      \<lparr>scores = [], calls = [], failing = []\<rparr>)) = 500 \<and>
   status (fst (post_scores_submit [] 1000 \<lparr>x_api_key = None, body = None\<rparr>
      \<lparr>scores = [], calls = [], failing = []\<rparr>)) = 500"
  by code_simp

section \<open>Validation of the name\<close>

lemma submit_no_body: "submit now None d = (error_response 400 ''Missing name'', d)"
  by (simp add: submit_def get_prop_def)

lemma submit_no_name:
  "get_prop b ''name'' = None \<Longrightarrow> submit now (Some b) d = (error_response 400 ''Missing name'', d)"
  by (simp add: submit_def)

lemma submit_null_name:
  "get_prop b ''name'' = Some JNull \<Longrightarrow> submit now (Some b) d = (error_response 400 ''Missing name'', d)"
  by (simp add: submit_def)

lemma submit_blank_name:
  "get_prop b ''name'' = Some (JStr s) \<Longrightarrow> trim s = [] \<Longrightarrow>
   submit now (Some b) d = (error_response 400 ''Missing name'', d)"
  by (simp add: submit_def)

text \<open>
  C5, as the code has it. A request whose name is missing (absent or \<^verbatim>\<open>null\<close>), empty
  or only white space leaves the database as it was, its log of calls included, so nothing is read or
  written; and when the request passes the API-key check the answer is 400. (The check
  runs first: a request that fails it is answered 401 or 500 whatever its name is.)
\<close>

theorem blank_name_rejected:
  assumes "body req = None \<or>
           (\<exists>b. body req = Some b \<and>
                (get_prop b ''name'' = None \<or> get_prop b ''name'' = Some JNull \<or>
                 (\<exists>s. get_prop b ''name'' = Some (JStr s) \<and> trim s = [])))"
  shows "snd (post_scores_submit API_KEY now req d) = d \<and>
         (requireApiKey API_KEY (x_api_key req) = None \<longrightarrow>
            post_scores_submit API_KEY now req d = (error_response 400 ''Missing name'', d))"
proof -
  from assms have "submit now (body req) d = (error_response 400 ''Missing name'', d)"
    by (auto simp: submit_no_body submit_no_name submit_null_name submit_blank_name)
  then show ?thesis
    by (cases "requireApiKey API_KEY (x_api_key req)") (simp_all add: post_scores_submit_def)
qed

theorem blank_name_rejected_witness:
  "post_scores_submit ''s3cret'' 1000
     \<lparr>x_api_key = Some ''s3cret'', body = Some [(''name'', JStr ''  ''), (''c1'', JNum (Fin 55))]\<rparr>
     \<lparr>scores = [], calls = [], failing = []\<rparr>
   = (error_response 400 ''Missing name'', \<lparr>scores = [], calls = [], failing = []\<rparr>)"
proof -
  have t: "trim ''  '' = []" by code_simp
  have "body \<lparr>x_api_key = Some ''s3cret'', body = Some [(''name'', JStr ''  ''), (''c1'', JNum (Fin 55))]\<rparr> = None \<or>
        (\<exists>b. body \<lparr>x_api_key = Some ''s3cret'', body = Some [(''name'', JStr ''  ''), (''c1'', JNum (Fin 55))]\<rparr> = Some b \<and>
            (get_prop b ''name'' = None \<or> get_prop b ''name'' = Some JNull \<or>
             (\<exists>s. get_prop b ''name'' = Some (JStr s) \<and> trim s = [])))"
    using t by (simp add: get_prop_def)
  from blank_name_rejected [OF this, of "''s3cret''" 1000 "\<lparr>scores = [], calls = [], failing = []\<rparr>"]
  show ?thesis by (simp add: requireApiKey_cases)
qed

text \<open>
  C5 as the specification words it fails for a request that does not pass the API-key
  check: the answer is then 401, not 400.
\<close>

theorem blank_name_without_key_is_401:
  "status (fst (post_scores_submit ''s3cret'' 1000
      \<lparr>x_api_key = None, body = Some [(''name'', JStr ''  '')]\<rparr>
      \<lparr>scores = [], calls = [], failing = []\<rparr>)) = 401 \<and>
   status (fst (post_scores_submit ''s3cret'' 1000
      \<lparr>x_api_key = None, body = Some [(''name'', JStr ''  '')]\<rparr>
      \<lparr>scores = [], calls = [], failing = []\<rparr>)) \<noteq> 400"
  by (simp add: post_scores_submit_def requireApiKey_def error_response_def)

section \<open>Merging a submission into the stored record\<close>

lemma merge_course_other: "c' \<noteq> c \<Longrightarrow> map_of (merge_course b ex n c) c' = map_of n c'"
  by (auto simp: merge_course_def Let_def update_conv' split: option.splits)

lemma merge_course_same:
  "map_of (merge_course b ex n c) c =
     (case map_of (merge_course b ex [] c) c of None \<Rightarrow> map_of n c | Some v \<Rightarrow> Some v)"
  by (auto simp: merge_course_def Let_def update_conv' split: option.splits)

lemma foldl_merge_course_other:
  "c \<notin> set cs \<Longrightarrow> map_of (foldl (merge_course b ex) n cs) c = map_of n c"
  by (induction cs arbitrary: n) (auto simp: merge_course_other)

lemma foldl_merge_course:
  "distinct cs \<Longrightarrow> c \<in> set cs \<Longrightarrow>
   map_of (foldl (merge_course b ex) n cs) c =
     (case map_of (merge_course b ex [] c) c of None \<Rightarrow> map_of n c | Some v \<Rightarrow> Some v)"
proof (induction cs arbitrary: n)
  case Nil
  then show ?case by simp
next
  case (Cons a cs)
  show ?case
  proof (cases "a = c")
    case True
    with Cons.prems have "c \<notin> set cs" by simp
    then show ?thesis using True
      by (simp add: foldl_merge_course_other merge_course_same [of b ex n c])
  next
    case False
    then have "c \<noteq> a" by simp
    with Cons show ?thesis by (simp add: merge_course_other cong: option.case_cong)
  qed
qed

lemma distinct_courses: "distinct courses"
  by (simp add: courses_def)

lemma next_record_course:
  "c \<in> set courses \<Longrightarrow>
   get_prop (next_record now b nm ex) c = get_prop (merge_course b ex [] c) c"
proof -
  assume c: "c \<in> set courses"
  then have "c \<noteq> ''name''" "c \<noteq> ''device''" "c \<noteq> ''updatedAt''"
    by (auto simp: courses_def)
  then show ?thesis
    using c by (simp add: next_record_def get_prop_def Let_def foldl_merge_course distinct_courses split: option.splits)
qed

lemma next_record_name:
  "get_prop (next_record now b nm ex) ''name'' = Some (JStr (take 40 (trim (String_js nm))))"
proof -
  have "''name'' \<notin> set courses" by (simp add: courses_def)
  then show ?thesis
    by (simp add: next_record_def get_prop_def Let_def foldl_merge_course_other)
qed

lemma submit_ok:
  assumes "get_prop b ''name'' = Some nm" "truthy nm" "trim (String_js nm) \<noteq> []"
    and "length (calls d) \<notin> set (failing d)" "Suc (length (calls d)) \<notin> set (failing d)"
  shows "submit now (Some b) d =
     (\<lparr>status = 200,
       payload = JObj [(''ok'', JBool True),
         (''saved'', JObj (next_record now b nm (existing_of (canonical_key (String_js nm)) d)))]\<rparr>,
      d\<lparr>calls := calls d @
           [Get (''/scores/'' @ canonical_key (String_js nm)),
            Set (''/scores/'' @ canonical_key (String_js nm))
              (next_record now b nm (existing_of (canonical_key (String_js nm)) d))],
        scores := AList.update (canonical_key (String_js nm))
           (next_record now b nm (existing_of (canonical_key (String_js nm)) d)) (scores d)\<rparr>)"
  using assms
  by (simp add: submit_def get_record_def set_record_def rejects_def existing_of_def Let_def)

lemma submit_200:
  assumes "submit now rb d = (r, d')" "status r = 200"
  shows "\<exists>b nm. rb = Some b \<and> get_prop b ''name'' = Some nm \<and> truthy nm \<and> trim (String_js nm) \<noteq> []
     \<and> length (calls d) \<notin> set (failing d) \<and> Suc (length (calls d)) \<notin> set (failing d)"
  using assms
  by (auto simp: submit_def get_record_def set_record_def rejects_def Let_def error_response_def get_prop_def
      split: option.splits if_splits prod.splits sum.splits)


lemma post_200:
  assumes "post_scores_submit API_KEY now req d = (r, d')" and "status r = 200"
    and "body req = Some b" and "get_prop b ''name'' = Some nm"
  shows "r = \<lparr>status = 200,
              payload = JObj [(''ok'', JBool True),
                (''saved'', JObj (next_record now b nm (existing_of (canonical_key (String_js nm)) d)))]\<rparr> \<and>
         d' = d\<lparr>calls := calls d @
                   [Get (''/scores/'' @ canonical_key (String_js nm)),
                    Set (''/scores/'' @ canonical_key (String_js nm))
                      (next_record now b nm (existing_of (canonical_key (String_js nm)) d))],
                 scores := AList.update (canonical_key (String_js nm))
                   (next_record now b nm (existing_of (canonical_key (String_js nm)) d)) (scores d)\<rparr>"
proof (cases "requireApiKey API_KEY (x_api_key req)")
  case (Some e)
  with assms(1) have "r = e" by (simp add: post_scores_submit_def)
  with Some assms(2) show ?thesis
    by (auto simp: requireApiKey_cases error_response_def split: if_splits)
next
  case None
  with assms(1,3) have s: "submit now (Some b) d = (r, d')"
    by (simp add: post_scores_submit_def)
  from submit_200 [OF s assms(2)] assms(4)
  have "truthy nm" "trim (String_js nm) \<noteq> []"
    "length (calls d) \<notin> set (failing d)" "Suc (length (calls d)) \<notin> set (failing d)"
    by auto
  from submit_ok [OF assms(4) this, of now] s show ?thesis by simp
qed


lemma non_finite_submission_drops_course:
  assumes "c \<in> set courses" and "not_nullish (get_prop b c)" and "\<not> isFinite (Number_js (get_prop b c))"
  shows "get_prop (next_record now b nm ex) c = None"
proof -
  have "get_prop (next_record now b nm ex) c = get_prop (merge_course b ex [] c) c"
    using assms(1) by (rule next_record_course)
  also have "\<dots> = None"
    using assms(2,3) by (simp add: merge_course_def get_prop_def)
  finally show ?thesis .
qed

text \<open>
  \<^verbatim>\<open>Number()\<close> at work: decimal, hexadecimal, octal and binary literals, signs, white
  space, fractions and exponents, rounding to the nearest double, overflow and underflow,
  the strings that are no numbers, and the values that are no strings.
\<close>

lemma floor_rat_numeral: "\<lfloor>numeral a / numeral b :: rat\<rfloor> = numeral a div numeral b"
  by (metis floor_divide_of_int_eq of_int_numeral)

lemmas number_defs = StringToNumber_def trim_def is_ws_def unsigned_literal_def unsigned_decimal_def
  is_digit_def parse_nat_def digit_value_def exponent_part_def pow10_def to_double_def
  radix_literal_def positive_to_double_def round_half_even_def pow2_def Let_def floor_rat_numeral



lemma Number_of_other_strings:
  "StringToNumber ''abc'' = NaN"
  "StringToNumber ''55px'' = NaN"
  "StringToNumber ''5 5'' = NaN"
  "StringToNumber ''5,5'' = NaN"
  "StringToNumber ''1e'' = NaN"
  "StringToNumber ''.'' = NaN"
  "StringToNumber ''0x'' = NaN"
  "StringToNumber ''-0x37'' = NaN"
  "StringToNumber ''infinity'' = NaN"
  "StringToNumber ''5e1.5'' = NaN"
  "StringToNumber ''--5'' = NaN"
  by (simp_all add: number_defs)



lemma key_Alice: "canonical_key ''Alice'' = ''alice''"
  by code_simp

lemma trim_Alice: "trim ''Alice'' = ''Alice''"
  by code_simp

text \<open>
  C1 fails on the code. The stored record has \<^verbatim>\<open>c1 = 55\<close>; a submission comes with
  \<^verbatim>\<open>c1: "abc"\<close>, which is present and not a finite number. The loop takes the first
  branch (\<^verbatim>\<open>req.body[c] != null\<close>), finds the number not finite and sets nothing, and
  the \<^verbatim>\<open>else if\<close> that carries the prior value forward is not reached. The record that
  is saved and written has no \<^verbatim>\<open>c1\<close> any more.
\<close>

theorem non_finite_submission_loses_prior_time:
  "post_scores_submit ''s3cret'' 2000
     \<lparr>x_api_key = Some ''s3cret'', body = Some [(''name'', JStr ''Alice''), (''c1'', JStr ''abc'')]\<rparr>
     \<lparr>scores = [(''alice'', [(''name'', JStr ''Alice''), (''device'', JStr ''desktop''),
                  (''updatedAt'', JNum (Fin 1000)), (''c1'', JNum (Fin 55))])],
       calls = [], failing = []\<rparr>
   = (\<lparr>status = 200,
       payload = JObj [(''ok'', JBool True),
         (''saved'', JObj [(''name'', JStr ''Alice''), (''device'', JStr ''desktop''),
                           (''updatedAt'', JNum (Fin 2000))])]\<rparr>,
      \<lparr>scores = [(''alice'', [(''name'', JStr ''Alice''), (''device'', JStr ''desktop''),
                   (''updatedAt'', JNum (Fin 2000))])],
        calls = [Get ''/scores/alice'',
                 Set ''/scores/alice'' [(''name'', JStr ''Alice''), (''device'', JStr ''desktop''),
                                        (''updatedAt'', JNum (Fin 2000))]],
        failing = []\<rparr>)"
  by code_simp



text \<open>
  What the loop does keep. Over any sequence of requests whose values for a course are
  absent, \<^verbatim>\<open>null\<close> or convert to a finite number, the stored field is the minimum of
  the numbers submitted under the key so far, and a field that holds a number keeps
  holding one that is not greater.
\<close>

lemma submit_not_200_scores:
  "status (fst (submit now rb d)) \<noteq> 200 \<Longrightarrow> scores (snd (submit now rb d)) = scores d"
  by (auto simp: submit_def get_record_def set_record_def Let_def split: option.splits if_splits)

lemma post_not_200_scores:
  "status (fst (post_scores_submit API_KEY now req d)) \<noteq> 200 \<Longrightarrow>
   scores (snd (post_scores_submit API_KEY now req d)) = scores d"
  by (cases "requireApiKey API_KEY (x_api_key req)") (simp_all add: post_scores_submit_def submit_not_200_scores)

lemma post_200_body:
  assumes "status (fst (post_scores_submit API_KEY now req d)) = 200"
  shows "\<exists>b nm. body req = Some b \<and> get_prop b ''name'' = Some nm"
proof (cases "requireApiKey API_KEY (x_api_key req)")
  case (Some e)
  with assms show ?thesis
    by (auto simp: post_scores_submit_def requireApiKey_cases error_response_def split: if_splits)
next
  case None
  with assms have "status (fst (submit now (body req) d)) = 200"
    by (simp add: post_scores_submit_def)
  from submit_200 [OF prod.collapse [symmetric] this] show ?thesis by blast
qed

lemma merged_course_value:
  assumes "c \<in> set courses" and "get_prop ex c = map_option (\<lambda>t. JNum (Fin t)) m"
    and "if not_nullish (get_prop b c) then isFinite (Number_js (get_prop b c)) else True"
  shows "get_prop (next_record now b nm ex) c =
         map_option (\<lambda>t. JNum (Fin t))
           (foldl best m (if not_nullish (get_prop b c)
                          then (case Number_js (get_prop b c) of Fin x \<Rightarrow> [x] | _ \<Rightarrow> []) else []))"
proof -
  have "get_prop (next_record now b nm ex) c = get_prop (merge_course b ex [] c) c"
    using assms(1) by (rule next_record_course)
  also have "\<dots> = map_option (\<lambda>t. JNum (Fin t))
           (foldl best m (if not_nullish (get_prop b c)
                          then (case Number_js (get_prop b c) of Fin x \<Rightarrow> [x] | _ \<Rightarrow> []) else []))"
  proof (cases "not_nullish (get_prop b c)")
    case True
    with assms(3) obtain x where "Number_js (get_prop b c) = Fin x"
      by (cases "Number_js (get_prop b c)") auto
    with True assms(2) show ?thesis
      by (cases m) (simp_all add: merge_course_def get_prop_def)
  next
    case False
    with assms(2) show ?thesis
      by (cases m) (simp_all add: merge_course_def get_prop_def)
  qed
  finally show ?thesis .
qed

lemma step_course:
  assumes "c \<in> set courses" and "convertible c req"
    and "get_prop (existing_of k d) c = map_option (\<lambda>t. JNum (Fin t)) m"
  shows "get_prop (existing_of k (snd (post_scores_submit API_KEY now req d))) c =
         map_option (\<lambda>t. JNum (Fin t)) (foldl best m (contributed API_KEY now req d k c))"
proof (cases "status (fst (post_scores_submit API_KEY now req d)) = 200")
  case False
  then have "scores (snd (post_scores_submit API_KEY now req d)) = scores d"
    by (rule post_not_200_scores)
  moreover from False have "contributed API_KEY now req d k c = []"
    by (simp add: contributed_def split: option.splits)
  ultimately show ?thesis using assms(3) by (simp add: existing_of_def)
next
  case True
  then obtain b nm where b: "body req = Some b" and nm: "get_prop b ''name'' = Some nm"
    using post_200_body by blast
  let ?key = "canonical_key (String_js nm)"
  from post_200 [OF prod.collapse [symmetric] True b nm]
  have d': "scores (snd (post_scores_submit API_KEY now req d)) =
      AList.update ?key (next_record now b nm (existing_of ?key d)) (scores d)"
    by simp
  show ?thesis
  proof (cases "?key = k")
    case False
    then have "contributed API_KEY now req d k c = []"
      by (simp add: contributed_def b nm)
    with False d' assms(3) show ?thesis
      by (simp add: existing_of_def update_conv')
  next
    case key: True
    have conv: "if not_nullish (get_prop b c) then isFinite (Number_js (get_prop b c)) else True"
      using assms(2) b by (simp add: convertible_def)
    have "existing_of k (snd (post_scores_submit API_KEY now req d)) =
        next_record now b nm (existing_of k d)"
      using d' key by (simp add: existing_of_def update_conv')
    moreover have "contributed API_KEY now req d k c =
        (if not_nullish (get_prop b c)
         then (case Number_js (get_prop b c) of Fin x \<Rightarrow> [x] | _ \<Rightarrow> []) else [])"
      using True key by (simp add: contributed_def b nm)
    ultimately show ?thesis
      using merged_course_value [OF assms(1,3) conv] by simp
  qed
qed

lemma course_after_submissions:
  assumes "c \<in> set courses"
  shows "list_all (\<lambda>(now, req). convertible c req) rs \<Longrightarrow>
         get_prop (existing_of k d) c = map_option (\<lambda>t. JNum (Fin t)) m \<Longrightarrow>
         get_prop (existing_of k (submissions API_KEY rs d)) c =
           map_option (\<lambda>t. JNum (Fin t)) (foldl best m (submitted_times API_KEY k c rs d))"
proof (induction rs arbitrary: d m)
  case Nil
  then show ?case by simp
next
  case (Cons p rs)
  obtain now req where p: "p = (now, req)" by (cases p)
  with Cons.prems have conv: "convertible c req" and rest: "list_all (\<lambda>(now, req). convertible c req) rs"
    by simp_all
  from step_course [OF assms conv Cons.prems(2)]
  have "get_prop (existing_of k (snd (post_scores_submit API_KEY now req d))) c =
      map_option (\<lambda>t. JNum (Fin t)) (foldl best m (contributed API_KEY now req d k c))" .
  from Cons.IH [OF rest this] show ?case
    by (simp add: p)
qed

lemma foldl_best_Some: "foldl best (Some y) xs = Some (Min (insert y (set xs)))"
proof (induction xs arbitrary: y)
  case Nil
  show ?case by simp
next
  case (Cons x xs)
  have "Min (insert (min y x) (set xs)) = Min (insert y (insert x (set xs)))"
    by (cases "xs = []") (simp_all add: min.assoc)
  with Cons show ?case by simp
qed

lemma foldl_best_None:
  "foldl best None xs = (case xs of [] \<Rightarrow> None | x # ys \<Rightarrow> Some (Min (set (x # ys))))"
  by (cases xs) (simp_all add: foldl_best_Some)

lemma course_holds_minimum:
  assumes "c \<in> set courses" and "list_all (\<lambda>(now, req). convertible c req) rs"
    and "get_prop (existing_of k d) c = None"
  shows "get_prop (existing_of k (submissions API_KEY rs d)) c =
           (case submitted_times API_KEY k c rs d of
              [] \<Rightarrow> None
            | x # xs \<Rightarrow> Some (JNum (Fin (Min (set (x # xs))))))"
  using course_after_submissions [OF assms(1,2), of k d None API_KEY] assms(3)
  by (simp add: foldl_best_None split: list.splits)

lemma course_never_increases:
  assumes "c \<in> set courses" and "list_all (\<lambda>(now, req). convertible c req) rs"
    and "get_prop (existing_of k d) c = Some (JNum (Fin t))"
  shows "\<exists>t'\<le>t. get_prop (existing_of k (submissions API_KEY rs d)) c = Some (JNum (Fin t'))"
  using course_after_submissions [OF assms(1,2), of k d "Some t" API_KEY] assms(3)
  by (simp add: foldl_best_Some)

text \<open>
  C2 fails on the code, by the defect seen at C1. Three submissions for the key
  \<^verbatim>\<open>alice\<close>, one after the other: \<^verbatim>\<open>c1: 55\<close>, then \<^verbatim>\<open>c1: "abc"\<close>, then
  \<^verbatim>\<open>c1: 60\<close>. After the first the stored \<^verbatim>\<open>c1\<close> is 55, after the second the field
  is gone, and after the third it is 60: it did not stay set, it went up, and it is not
  the minimum of the finite values submitted.
\<close>

theorem non_finite_submission_resets_minimum:
  "get_prop (existing_of ''alice'' (submissions ''s3cret''
      [(1000, \<lparr>x_api_key = Some ''s3cret'', body = Some [(''name'', JStr ''Alice''), (''c1'', JNum (Fin 55))]\<rparr>)]
      \<lparr>scores = [], calls = [], failing = []\<rparr>)) ''c1'' = Some (JNum (Fin 55)) \<and>
   get_prop (existing_of ''alice'' (submissions ''s3cret''
      [(1000, \<lparr>x_api_key = Some ''s3cret'', body = Some [(''name'', JStr ''Alice''), (''c1'', JNum (Fin 55))]\<rparr>),
       (2000, \<lparr>x_api_key = Some ''s3cret'', body = Some [(''name'', JStr ''Alice''), (''c1'', JStr ''abc'')]\<rparr>)]
      \<lparr>scores = [], calls = [], failing = []\<rparr>)) ''c1'' = None \<and>
   get_prop (existing_of ''alice'' (submissions ''s3cret''
      [(1000, \<lparr>x_api_key = Some ''s3cret'', body = Some [(''name'', JStr ''Alice''), (''c1'', JNum (Fin 55))]\<rparr>),
       (2000, \<lparr>x_api_key = Some ''s3cret'', body = Some [(''name'', JStr ''Alice''), (''c1'', JStr ''abc'')]\<rparr>),
       (3000, \<lparr>x_api_key = Some ''s3cret'', body = Some [(''name'', JStr ''Alice''), (''c1'', JNum (Fin 60))]\<rparr>)]
      \<lparr>scores = [], calls = [], failing = []\<rparr>)) ''c1'' = Some (JNum (Fin 60))"
  by code_simp


section \<open>What is saved is what is listed\<close>

lemma mset_insert_js: "mset (insert_js cmp x ys) = add_mset x (mset ys)"
  by (induction ys) auto

lemma mset_sort_js: "mset (sort_js cmp xs) = mset xs"
  by (induction xs) (auto simp: sort_js_def mset_insert_js)

lemma set_sort_js: "set (sort_js cmp xs) = set xs"
  using mset_sort_js [of cmp xs] by (metis set_mset_mset)

text \<open>
  C7. For a submission that is answered 200, the record in \<^verbatim>\<open>saved\<close> is the record of
  the last database call, a \<^verbatim>\<open>set\<close> at the key of the name, and it is what the
  database then holds under that key; a \<^verbatim>\<open>GET /scores\<close> that follows and reads the
  database lists it, in each of the three copies.
\<close>

theorem saved_record_round_trip:
  fixes now :: int and b :: obj and nm :: json and d :: db
  defines "key \<equiv> canonical_key (String_js nm)"
  defines "saved \<equiv> next_record now b nm (existing_of (canonical_key (String_js nm)) d)"
  assumes "post_scores_submit API_KEY now req d = (r, d')" and "status r = 200"
    and "body req = Some b" and "get_prop b ''name'' = Some nm"
  shows "payload r = JObj [(''ok'', JBool True), (''saved'', JObj saved)] \<and>
         last (calls d') = Set (''/scores/'' @ key) saved \<and>
         map_of (scores d') key = Some saved \<and>
         (\<not> rejects d' \<longrightarrow>
            status (fst (get_scores q d')) = 200 \<and>
            JObj saved \<in> set (listed (payload (fst (get_scores q d')))) \<and>
            JObj saved \<in> set (listed (payload (fst (get_scores_copy2 q d')))) \<and>
            JObj saved \<in> set (listed (payload (fst (get_scores_part_000 q d')))))"
proof -
  from post_200 [OF assms(3-6)]
  have r: "r = \<lparr>status = 200, payload = JObj [(''ok'', JBool True), (''saved'', JObj saved)]\<rparr>"
    and d': "d' = d\<lparr>calls := calls d @ [Get (''/scores/'' @ key), Set (''/scores/'' @ key) saved],
                    scores := AList.update key saved (scores d)\<rparr>"
    by (simp_all add: key_def saved_def)
  have stored: "map_of (scores d') key = Some saved"
    by (simp add: d' update_conv')
  then have "(key, saved) \<in> set (scores d')" by (rule map_of_SomeD)
  then have mem: "saved \<in> snd ` set (scores d')" by force
  have "\<not> rejects d' \<Longrightarrow> JObj saved \<in> set (listed (payload (fst (get_scores q d'))))"
    using mem by (auto simp: get_scores_def get_scores_node_def Let_def sorted_scores_def set_sort_js)
  moreover have "\<not> rejects d' \<Longrightarrow> status (fst (get_scores q d')) = 200"
    by (simp add: get_scores_def get_scores_node_def Let_def)
  moreover have "\<not> rejects d' \<Longrightarrow> JObj saved \<in> set (listed (payload (fst (get_scores_copy2 q d'))))"
    using mem by (auto simp: get_scores_copy2_def get_scores_node_def Let_def)
  moreover have "\<not> rejects d' \<Longrightarrow> JObj saved \<in> set (listed (payload (fst (get_scores_part_000 q d'))))"
    using mem by (auto simp: get_scores_part_000_def get_scores_node_def Let_def)
  ultimately show ?thesis using r d' stored by simp
qed

theorem saved_record_round_trip_witness:
  "payload (fst (post_scores_submit ''s3cret'' 2000
      \<lparr>x_api_key = Some ''s3cret'', body = Some [(''name'', JStr ''Alice''), (''c1'', JNum (Fin 50))]\<rparr>
      \<lparr>scores = [(''alice'', [(''name'', JStr ''Alice''), (''device'', JStr ''desktop''),
                   (''updatedAt'', JNum (Fin 1000)), (''c1'', JNum (Fin 55))])],
        calls = [], failing = []\<rparr>))
   = JObj [(''ok'', JBool True),
           (''saved'', JObj [(''name'', JStr ''Alice''), (''device'', JStr ''desktop''),
                             (''updatedAt'', JNum (Fin 2000)), (''c1'', JNum (Fin 50))])] \<and>
   JObj [(''name'', JStr ''Alice''), (''device'', JStr ''desktop''),
         (''updatedAt'', JNum (Fin 2000)), (''c1'', JNum (Fin 50))]
   \<in> set (listed (payload (fst (get_scores \<lparr>course = None, dir = None\<rparr>
        (snd (post_scores_submit ''s3cret'' 2000
          \<lparr>x_api_key = Some ''s3cret'', body = Some [(''name'', JStr ''Alice''), (''c1'', JNum (Fin 50))]\<rparr>
          \<lparr>scores = [(''alice'', [(''name'', JStr ''Alice''), (''device'', JStr ''desktop''),
                       (''updatedAt'', JNum (Fin 1000)), (''c1'', JNum (Fin 55))])],
            calls = [], failing = []\<rparr>))))))"
proof -
  let ?b = "[(''name'', JStr ''Alice''), (''c1'', JNum (Fin 50))]"
  let ?req = "\<lparr>x_api_key = Some ''s3cret'', body = Some ?b\<rparr>"
  let ?d = "\<lparr>scores = [(''alice'', [(''name'', JStr ''Alice''), (''device'', JStr ''desktop''),
                   (''updatedAt'', JNum (Fin 1000)), (''c1'', JNum (Fin 55))])],
        calls = [], failing = []\<rparr>"
  let ?run = "post_scores_submit ''s3cret'' 2000 ?req ?d"
  have run: "?run = (fst ?run, snd ?run)" by simp
  have ok: "status (fst ?run) = 200"
    by (simp add: post_scores_submit_def requireApiKey_cases submit_def get_prop_def trim_Alice
        get_record_def set_record_def rejects_def Let_def)
  have b: "body ?req = Some ?b" by simp
  have nm: "get_prop ?b ''name'' = Some (JStr ''Alice'')" by (simp add: get_prop_def)
  have saved: "next_record 2000 ?b (JStr ''Alice'') (existing_of ''alice'' ?d) =
      [(''name'', JStr ''Alice''), (''device'', JStr ''desktop''),
       (''updatedAt'', JNum (Fin 2000)), (''c1'', JNum (Fin 50))]"
    by code_simp
  have up: "\<not> rejects (snd ?run)"
    using post_200 [OF run ok b nm] by (simp add: rejects_def)
  from saved_record_round_trip [OF run ok b nm, of "\<lparr>course = None, dir = None\<rparr>"] up
  show ?thesis
    by (simp add: key_Alice saved)
qed

section \<open>The order of the listing\<close>

lemma positive_ascending:
  "ka \<noteq> NaN \<Longrightarrow> kb \<noteq> NaN \<Longrightarrow>
   positive (times_js (Fin 1) (minus_js ka kb)) = (\<not> time_rank ka \<le> time_rank kb)"
  by (cases ka; cases kb) (auto simp: less_eq_prod_def)

lemma positive_descending:
  "ka \<noteq> NaN \<Longrightarrow> kb \<noteq> NaN \<Longrightarrow>
   positive (times_js (Fin (- 1)) (minus_js ka kb)) = (\<not> time_rank (negate ka) \<le> time_rank (negate kb))"
  by (cases ka; cases kb) (auto simp: less_eq_prod_def)

lemma insert_js_insort_key:
  "\<forall>y \<in> set ys. positive (cmp x y) = (\<not> f x \<le> f y) \<Longrightarrow> insert_js cmp x ys = insort_key f x ys"
  by (induction ys) auto

lemma sort_js_sort_key:
  "\<forall>x \<in> set xs. \<forall>y \<in> set xs. positive (cmp x y) = (\<not> f x \<le> f y) \<Longrightarrow>
   sort_js cmp xs = sort_key f xs"
proof (induction xs)
  case Nil
  show ?case by (simp add: sort_js_def)
next
  case (Cons x xs)
  then have "sort_js cmp xs = sort_key f xs" by simp
  moreover have "insert_js cmp x (sort_key f xs) = insort_key f x (sort_key f xs)"
    using Cons.prems by (intro insert_js_insort_key) simp
  ultimately show ?case by (simp add: sort_js_def)
qed

lemma comparator_ascending:
  "sort_time c a \<noteq> NaN \<Longrightarrow> sort_time c b \<noteq> NaN \<Longrightarrow>
   positive (comparator c (Fin 1) a b) = (\<not> time_rank (sort_time c a) \<le> time_rank (sort_time c b))"
  by (simp add: comparator_def Let_def sort_time_def positive_ascending)

lemma comparator_descending:
  "sort_time c a \<noteq> NaN \<Longrightarrow> sort_time c b \<noteq> NaN \<Longrightarrow>
   positive (comparator c (Fin (- 1)) a b) =
     (\<not> time_rank (negate (sort_time c a)) \<le> time_rank (negate (sort_time c b)))"
  by (simp add: comparator_def Let_def sort_time_def positive_descending)

lemma sorted_scores_ascending:
  assumes "\<forall>a \<in> set (map snd data). sort_time (requested_course req) a \<noteq> NaN"
    and "dir req \<noteq> Some ''desc''"
  shows "sorted_scores req data =
     sort_key (\<lambda>a. time_rank (sort_time (requested_course req) a)) (map snd data)"
proof -
  have "sort_js (comparator (requested_course req) (Fin 1)) (map snd data) =
        sort_key (\<lambda>a. time_rank (sort_time (requested_course req) a)) (map snd data)"
  proof (rule sort_js_sort_key, intro ballI)
    fix x y assume "x \<in> set (map snd data)" "y \<in> set (map snd data)"
    with assms(1) show "positive (comparator (requested_course req) (Fin 1) x y) =
        (\<not> time_rank (sort_time (requested_course req) x) \<le> time_rank (sort_time (requested_course req) y))"
      by (intro comparator_ascending) blast+
  qed
  with assms(2) show ?thesis by (simp add: sorted_scores_def)
qed

lemma sorted_scores_descending:
  assumes "\<forall>a \<in> set (map snd data). sort_time (requested_course req) a \<noteq> NaN"
    and "dir req = Some ''desc''"
  shows "sorted_scores req data =
     sort_key (\<lambda>a. time_rank (negate (sort_time (requested_course req) a))) (map snd data)"
proof -
  have "sort_js (comparator (requested_course req) (Fin (- 1))) (map snd data) =
        sort_key (\<lambda>a. time_rank (negate (sort_time (requested_course req) a))) (map snd data)"
  proof (rule sort_js_sort_key, intro ballI)
    fix x y assume "x \<in> set (map snd data)" "y \<in> set (map snd data)"
    with assms(1) show "positive (comparator (requested_course req) (Fin (- 1)) x y) =
        (\<not> time_rank (negate (sort_time (requested_course req) x))
           \<le> time_rank (negate (sort_time (requested_course req) y)))"
      by (intro comparator_descending) blast+
  qed
  with assms(2) show ?thesis by (simp add: sorted_scores_def)
qed

lemma time_rank_top: "k \<noteq> NaN \<Longrightarrow> time_rank PInf \<le> time_rank k \<Longrightarrow> k = PInf"
  by (cases k) (auto simp: less_eq_prod_def)

lemma time_rank_bottom: "k \<noteq> NaN \<Longrightarrow> time_rank (negate k) \<le> time_rank (negate PInf) \<Longrightarrow> k = PInf"
  by (cases k) (auto simp: less_eq_prod_def)

lemma falsy_is_Infinity: "get_prop a c = Some v \<Longrightarrow> \<not> truthy v \<Longrightarrow> time_or_Infinity c a = JNum PInf"
  by (simp add: time_or_Infinity_def)

lemma missing_is_Infinity: "get_prop a c = None \<Longrightarrow> time_or_Infinity c a = JNum PInf"
  by (simp add: time_or_Infinity_def)

text \<open>
  The handler only ever stores finite numbers in the five course fields, so in a
  database that it alone has written to no time converts to \<^verbatim>\<open>NaN\<close>, and the
  listing by one of the five courses is the stable sort by the comparator's number.
\<close>

lemma finite_time_merge_course:
  assumes "finite_time (get_prop ex c)"
  shows "finite_time (get_prop (merge_course b ex [] c) c)"
proof (cases "not_nullish (get_prop b c)")
  case True
  show ?thesis
  proof (cases "Number_js (get_prop b c)")
    case (Fin x)
    with True show ?thesis
      by (cases "Number_js (get_prop ex c)") (simp_all add: merge_course_def get_prop_def)
  qed (use True in \<open>simp_all add: merge_course_def get_prop_def\<close>)
next
  case False
  with assms show ?thesis
    by (auto simp: merge_course_def get_prop_def split: option.splits)
qed

lemma finite_times_existing:
  "finite_times (scores d) \<Longrightarrow> c \<in> set courses \<Longrightarrow> finite_time (get_prop (existing_of k d) c)"
  by (auto simp: finite_times_def existing_of_def list_all_iff get_prop_def split: option.splits
      dest!: map_of_SomeD)

lemma list_all_update:
  "list_all P xs \<Longrightarrow> P (k, v) \<Longrightarrow> list_all P (AList.update k v xs)"
  by (induction xs) auto

lemma finite_times_step:
  assumes "finite_times (scores d)"
  shows "finite_times (scores (snd (post_scores_submit API_KEY now req d)))"
proof (cases "status (fst (post_scores_submit API_KEY now req d)) = 200")
  case False
  with assms show ?thesis by (simp add: post_not_200_scores)
next
  case True
  then obtain b nm where b: "body req = Some b" and nm: "get_prop b ''name'' = Some nm"
    using post_200_body by blast
  let ?key = "canonical_key (String_js nm)"
  from post_200 [OF prod.collapse [symmetric] True b nm]
  have d': "scores (snd (post_scores_submit API_KEY now req d)) =
      AList.update ?key (next_record now b nm (existing_of ?key d)) (scores d)"
    by simp
  have "list_all (\<lambda>c. finite_time (get_prop (next_record now b nm (existing_of ?key d)) c)) courses"
    unfolding list_all_iff
  proof
    fix c assume c: "c \<in> set courses"
    then have "finite_time (get_prop (existing_of ?key d) c)"
      using assms by (intro finite_times_existing)
    then show "finite_time (get_prop (next_record now b nm (existing_of ?key d)) c)"
      by (simp add: next_record_course [OF c] finite_time_merge_course)
  qed
  with assms show ?thesis
    unfolding d' finite_times_def by (intro list_all_update) simp_all
qed

lemma finite_times_submissions:
  "finite_times (scores d) \<Longrightarrow> finite_times (scores (submissions API_KEY rs d))"
  by (induction rs arbitrary: d) (auto simp: finite_times_step)

lemma finite_time_not_NaN:
  "finite_time (get_prop r c) \<Longrightarrow> sort_time c r \<noteq> NaN"
  by (cases "get_prop r c" rule: finite_time.cases)
     (auto simp: sort_time_def time_or_Infinity_def)

lemma finite_times_not_NaN:
  assumes "finite_times data" and "c \<in> set courses"
  shows "\<forall>r \<in> set (map snd data). sort_time c r \<noteq> NaN"
  using assms by (auto simp: finite_times_def list_all_iff intro!: finite_time_not_NaN)

lemma listing_is_stable_sort:
  assumes "finite_times data" and "requested_course req \<in> set courses"
  shows "sorted_scores req data =
     (if dir req = Some ''desc''
      then sort_key (\<lambda>a. time_rank (negate (sort_time (requested_course req) a))) (map snd data)
      else sort_key (\<lambda>a. time_rank (sort_time (requested_course req) a)) (map snd data))"
  using finite_times_not_NaN [OF assms]
  by (simp add: sorted_scores_ascending sorted_scores_descending)

text \<open>
  C4 fails on the code. Ann submits the time 0 for course 1 and Bob the time 5; the
  listing, ascending by \<^verbatim>\<open>c1\<close>, has Bob first and Ann last. The comparator reads
  \<^verbatim>\<open>a[course] || Infinity\<close>, and 0 is falsy, so the fastest time is sorted as if it
  were missing, against the comment above the sort, "fastest first".
\<close>

theorem zero_time_listed_last:
  "listed (payload (fst (get_scores \<lparr>course = Some ''c1'', dir = Some ''asc''\<rparr>
      (submissions ''s3cret''
        [(1000, \<lparr>x_api_key = Some ''s3cret'', body = Some [(''name'', JStr ''Ann''), (''c1'', JNum (Fin 0))]\<rparr>),
         (2000, \<lparr>x_api_key = Some ''s3cret'', body = Some [(''name'', JStr ''Bob''), (''c1'', JNum (Fin 5))]\<rparr>)]
        \<lparr>scores = [], calls = [], failing = []\<rparr>))))
   = [JObj [(''name'', JStr ''Bob''), (''device'', JStr ''desktop''),
            (''updatedAt'', JNum (Fin 2000)), (''c1'', JNum (Fin 5))],
      JObj [(''name'', JStr ''Ann''), (''device'', JStr ''desktop''),
            (''updatedAt'', JNum (Fin 1000)), (''c1'', JNum (Fin 0))]]"
  by code_simp

text \<open>
  C9 as the specification words it fails where a stored time converts to \<^verbatim>\<open>NaN\<close>.
  With Ann's time 0, Bea's time the text \<^verbatim>\<open>abc\<close> and Bob's time 5 stored in this
  order, every comparison with Bea's record gives \<^verbatim>\<open>NaN\<close>, and the listing ascending
  by \<^verbatim>\<open>c1\<close> has Ann first: before Bea, and before Bob when he is there.
\<close>

theorem zero_time_first_beside_text:
  "sorted_scores \<lparr>course = Some ''c1'', dir = Some ''asc''\<rparr>
     [(''ann'', [(''name'', JStr ''Ann''), (''c1'', JNum (Fin 0))]),
      (''bea'', [(''name'', JStr ''Bea''), (''c1'', JStr ''abc'')])]
   = [[(''name'', JStr ''Ann''), (''c1'', JNum (Fin 0))],
      [(''name'', JStr ''Bea''), (''c1'', JStr ''abc'')]] \<and>
   sorted_scores \<lparr>course = Some ''c1'', dir = Some ''asc''\<rparr>
     [(''ann'', [(''name'', JStr ''Ann''), (''c1'', JNum (Fin 0))]),
      (''bea'', [(''name'', JStr ''Bea''), (''c1'', JStr ''abc'')]),
      (''bob'', [(''name'', JStr ''Bob''), (''c1'', JNum (Fin 5))])]
   = [[(''name'', JStr ''Ann''), (''c1'', JNum (Fin 0))],
      [(''name'', JStr ''Bea''), (''c1'', JStr ''abc'')],
      [(''name'', JStr ''Bob''), (''c1'', JNum (Fin 5))]] \<and>
   sort_time ''c1'' [(''name'', JStr ''Bea''), (''c1'', JStr ''abc'')] = NaN \<and>
   sort_time ''c1'' [(''name'', JStr ''Bob''), (''c1'', JNum (Fin 5))] = Fin 5"
  by (simp add: sorted_scores_def requested_course_def sort_js_def comparator_def
      time_or_Infinity_def sort_time_def get_prop_def Number_of_other_strings)

text \<open>
  C9, as the code has it. Let \<open>c\<close> be the course that the query names, \<^verbatim>\<open>c1\<close> when it
  names none, and let no record have a time for \<open>c\<close> that converts to \<^verbatim>\<open>NaN\<close> (see
  \<open>finite_times_not_NaN\<close> for when that is). A record whose value for \<open>c\<close> is there but
  falsy, such as 0, gets the sentinel \<^verbatim>\<open>Infinity\<close>, and the comparator gives the same
  result for it as for a record without the field, on either side and in either
  direction. Wherever it stands in the listing, in ascending order only records with the
  sentinel come after it, and in descending order only records with the sentinel come
  before it.
\<close>

theorem falsy_time_sorts_as_missing:
  assumes "course req = Some c \<and> c \<noteq> [] \<or> (course req = None \<or> course req = Some []) \<and> c = ''c1''"
    and "\<forall>r \<in> set (map snd data). sort_time c r \<noteq> NaN"
    and "sorted_scores req data = pre @ a # post"
    and "get_prop a c = Some v" and "\<not> truthy v"
  shows "time_or_Infinity c a = JNum PInf \<and>
         (get_prop m c = None \<longrightarrow>
            comparator c sortDir a x = comparator c sortDir m x \<and>
            comparator c sortDir x a = comparator c sortDir x m) \<and>
         (if dir req = Some ''desc''
          then \<forall>b \<in> set pre. sort_time c b = PInf
          else \<forall>b \<in> set post. sort_time c b = PInf)"
proof -
  have rc: "requested_course req = c"
    using assms(1) by (auto simp: requested_course_def)
  have nan: "\<forall>r \<in> set (map snd data). sort_time (requested_course req) r \<noteq> NaN"
    using assms(2) by (simp add: rc)
  have inf: "time_or_Infinity c a = JNum PInf"
    using assms(4,5) by (rule falsy_is_Infinity)
  then have ka: "sort_time c a = PInf" by (simp add: sort_time_def)
  have same: "get_prop m c = None \<longrightarrow>
      comparator c sortDir a x = comparator c sortDir m x \<and>
      comparator c sortDir x a = comparator c sortDir x m"
    by (simp add: comparator_def inf missing_is_Infinity)
  have mem: "set (pre @ a # post) = set (map snd data)"
    using assms(3) [symmetric] by (simp add: sorted_scores_def set_sort_js)
  then have "\<And>b. b \<in> set (pre @ a # post) \<Longrightarrow> b \<in> set (map snd data)"
    by blast
  then have nn: "\<And>b. b \<in> set pre \<or> b \<in> set post \<Longrightarrow> sort_time c b \<noteq> NaN"
    using assms(2) by (metis Un_iff list.set_intros(2) set_append)
  show ?thesis
  proof (cases "dir req = Some ''desc''")
    case True
    have "sorted (map (\<lambda>r. time_rank (negate (sort_time c r))) (pre @ a # post))"
      using sorted_scores_descending [OF nan True] assms(3) sorted_sort_key unfolding rc by metis
    then have "\<forall>b \<in> set pre. time_rank (negate (sort_time c b)) \<le> time_rank (negate (sort_time c a))"
      by (auto simp: sorted_append)
    with ka nn have "\<forall>b \<in> set pre. sort_time c b = PInf"
      by (auto intro: time_rank_bottom)
    with inf same True show ?thesis by simp
  next
    case False
    have "sorted (map (\<lambda>r. time_rank (sort_time c r)) (pre @ a # post))"
      using sorted_scores_ascending [OF nan False] assms(3) sorted_sort_key unfolding rc by metis
    then have "\<forall>b \<in> set post. time_rank (sort_time c a) \<le> time_rank (sort_time c b)"
      by (auto simp: sorted_append)
    with ka nn have "\<forall>b \<in> set post. sort_time c b = PInf"
      by (auto intro: time_rank_top)
    with inf same False show ?thesis by simp
  qed
qed

theorem falsy_time_sorts_as_missing_witness:
  "sorted_scores \<lparr>course = Some ''c2'', dir = None\<rparr>
     [(''ann'', [(''name'', JStr ''Ann''), (''c1'', JNum (Fin 4)), (''c2'', JNum (Fin 0))]),
      (''bob'', [(''name'', JStr ''Bob''), (''c1'', JNum (Fin 5)), (''c2'', JNum (Fin 2))]),
      (''cy'', [(''name'', JStr ''Cy''), (''c1'', JNum (Fin 3)), (''c2'', JNum (Fin 9))]),
      (''dan'', [(''name'', JStr ''Dan''), (''c1'', JNum (Fin 2))])]
   = [[(''name'', JStr ''Bob''), (''c1'', JNum (Fin 5)), (''c2'', JNum (Fin 2))],
      [(''name'', JStr ''Cy''), (''c1'', JNum (Fin 3)), (''c2'', JNum (Fin 9))],
      [(''name'', JStr ''Ann''), (''c1'', JNum (Fin 4)), (''c2'', JNum (Fin 0))],
      [(''name'', JStr ''Dan''), (''c1'', JNum (Fin 2))]] \<and>
   time_or_Infinity ''c2'' [(''name'', JStr ''Ann''), (''c1'', JNum (Fin 4)), (''c2'', JNum (Fin 0))]
     = JNum PInf \<and>
   comparator ''c2'' (Fin 1) [(''name'', JStr ''Ann''), (''c1'', JNum (Fin 4)), (''c2'', JNum (Fin 0))]
       [(''name'', JStr ''Bob''), (''c1'', JNum (Fin 5)), (''c2'', JNum (Fin 2))]
     = comparator ''c2'' (Fin 1) [(''name'', JStr ''Dan''), (''c1'', JNum (Fin 2))]
       [(''name'', JStr ''Bob''), (''c1'', JNum (Fin 5)), (''c2'', JNum (Fin 2))] \<and>
   sort_time ''c2'' [(''name'', JStr ''Dan''), (''c1'', JNum (Fin 2))] = PInf \<and>
   sorted_scores \<lparr>course = Some ''c2'', dir = Some ''desc''\<rparr>
     [(''ann'', [(''name'', JStr ''Ann''), (''c1'', JNum (Fin 4)), (''c2'', JNum (Fin 0))]),
      (''bob'', [(''name'', JStr ''Bob''), (''c1'', JNum (Fin 5)), (''c2'', JNum (Fin 2))]),
      (''cy'', [(''name'', JStr ''Cy''), (''c1'', JNum (Fin 3)), (''c2'', JNum (Fin 9))]),
      (''dan'', [(''name'', JStr ''Dan''), (''c1'', JNum (Fin 2)), (''c2'', JStr [])])]
   = [[(''name'', JStr ''Ann''), (''c1'', JNum (Fin 4)), (''c2'', JNum (Fin 0))],
      [(''name'', JStr ''Dan''), (''c1'', JNum (Fin 2)), (''c2'', JStr [])],
      [(''name'', JStr ''Cy''), (''c1'', JNum (Fin 3)), (''c2'', JNum (Fin 9))],
      [(''name'', JStr ''Bob''), (''c1'', JNum (Fin 5)), (''c2'', JNum (Fin 2))]] \<and>
   sort_time ''c2'' [(''name'', JStr ''Ann''), (''c1'', JNum (Fin 4)), (''c2'', JNum (Fin 0))] = PInf \<and>
   sorted_scores \<lparr>course = Some [], dir = Some ''up''\<rparr>
     [(''eve'', [(''name'', JStr ''Eve''), (''c1'', JNum (Fin 0)), (''c2'', JNum (Fin 1))]),
      (''fay'', [(''name'', JStr ''Fay''), (''c1'', JNum (Fin 7)), (''c2'', JNum (Fin 8))]),
      (''gus'', [(''name'', JStr ''Gus''), (''c2'', JNum (Fin 6))])]
   = [[(''name'', JStr ''Fay''), (''c1'', JNum (Fin 7)), (''c2'', JNum (Fin 8))],
      [(''name'', JStr ''Eve''), (''c1'', JNum (Fin 0)), (''c2'', JNum (Fin 1))],
      [(''name'', JStr ''Gus''), (''c2'', JNum (Fin 6))]] \<and>
   sort_time ''c1'' [(''name'', JStr ''Gus''), (''c2'', JNum (Fin 6))] = PInf"
proof -
  let ?ann = "[(''name'', JStr ''Ann''), (''c1'', JNum (Fin 4)), (''c2'', JNum (Fin 0))]"
  let ?bob = "[(''name'', JStr ''Bob''), (''c1'', JNum (Fin 5)), (''c2'', JNum (Fin 2))]"
  let ?cy = "[(''name'', JStr ''Cy''), (''c1'', JNum (Fin 3)), (''c2'', JNum (Fin 9))]"
  let ?dan = "[(''name'', JStr ''Dan''), (''c1'', JNum (Fin 2))]"
  let ?dax = "[(''name'', JStr ''Dan''), (''c1'', JNum (Fin 2)), (''c2'', JStr [])]"
  let ?eve = "[(''name'', JStr ''Eve''), (''c1'', JNum (Fin 0)), (''c2'', JNum (Fin 1))]"
  let ?fay = "[(''name'', JStr ''Fay''), (''c1'', JNum (Fin 7)), (''c2'', JNum (Fin 8))]"
  let ?gus = "[(''name'', JStr ''Gus''), (''c2'', JNum (Fin 6))]"
  let ?asc = "\<lparr>course = Some ''c2'', dir = None\<rparr>"
  let ?desc = "\<lparr>course = Some ''c2'', dir = Some ''desc''\<rparr>"
  let ?up = "\<lparr>course = Some [], dir = Some ''up''\<rparr>"
  let ?data = "[(''ann'', ?ann), (''bob'', ?bob), (''cy'', ?cy), (''dan'', ?dan)]"
  let ?more = "[(''ann'', ?ann), (''bob'', ?bob), (''cy'', ?cy), (''dan'', ?dax)]"
  let ?rest = "[(''eve'', ?eve), (''fay'', ?fay), (''gus'', ?gus)]"
  have named: "course ?asc = Some ''c2'' \<and> ''c2'' \<noteq> [] \<or>
      (course ?asc = None \<or> course ?asc = Some []) \<and> ''c2'' = ''c1''"
    "course ?desc = Some ''c2'' \<and> ''c2'' \<noteq> [] \<or>
      (course ?desc = None \<or> course ?desc = Some []) \<and> ''c2'' = ''c1''"
    "course ?up = Some ''c1'' \<and> ''c1'' \<noteq> [] \<or>
      (course ?up = None \<or> course ?up = Some []) \<and> ''c1'' = ''c1''"
    by simp_all
  have numbers: "\<forall>r \<in> set (map snd ?data). sort_time ''c2'' r \<noteq> NaN"
    "\<forall>r \<in> set (map snd ?more). sort_time ''c2'' r \<noteq> NaN"
    "\<forall>r \<in> set (map snd ?rest). sort_time ''c1'' r \<noteq> NaN"
    by (simp_all add: sort_time_def time_or_Infinity_def get_prop_def)
  have order: "sorted_scores ?asc ?data = [?bob, ?cy] @ ?ann # [?dan]"
    "sorted_scores ?desc ?more = [?ann] @ ?dax # [?cy, ?bob]"
    "sorted_scores ?up ?rest = [?fay] @ ?eve # [?gus]"
    by (simp_all add: sorted_scores_def requested_course_def sort_js_def comparator_def
        time_or_Infinity_def get_prop_def)
  have falsy: "get_prop ?ann ''c2'' = Some (JNum (Fin 0))" "\<not> truthy (JNum (Fin 0))"
    "get_prop ?dax ''c2'' = Some (JStr [])" "\<not> truthy (JStr [])"
    "get_prop ?eve ''c1'' = Some (JNum (Fin 0))"
    by (simp_all add: get_prop_def)
  have missing: "get_prop ?dan ''c2'' = None"
    by (simp add: get_prop_def)
  from falsy_time_sorts_as_missing [OF named(1) numbers(1) order(1) falsy(1,2), of ?dan "Fin 1" ?bob]
    falsy_time_sorts_as_missing [OF named(2) numbers(2) order(2) falsy(3,4)]
    falsy_time_sorts_as_missing [OF named(3) numbers(3) order(3) falsy(5,2)]
    order missing
  show ?thesis by simp
qed



end
